theory Spec2Isabelle
  imports Main "HOL-Library.Sublist"
begin

section \<open>Values exchanged with the wallet-session library and the ledger SDK\<close>

text \<open>
  The page script \<^verbatim>\<open>src/main.js\<close> is glue between the DOM and two libraries. Every
  library call is awaited; what the awaited promise settles to is chosen by the library,
  so the model takes it as an input: \<open>Inl e\<close> when the promise rejects (or the call
  throws) with the value \<open>e\<close>, \<open>Inr v\<close> when it resolves to \<open>v\<close>.

  JavaScript lets any value be thrown. The script only ever reads the \<^verbatim>\<open>message\<close>
  property of what it catches, so a thrown value is one of: an object with a \<^verbatim>\<open>message\<close>
  (an Error, kept as the text of that property), any other value that has properties but
  no \<^verbatim>\<open>message\<close> (a string, a number, a plain object), \<^verbatim>\<open>null\<close>, or \<^verbatim>\<open>undefined\<close>.
\<close>

datatype js_error = Error string | ThrownValue | ThrownNull | ThrownUndefined

type_synonym 'a outcome = "js_error + 'a"

text \<open>
  \<^verbatim>\<open>`${err.message}`\<close>: the property access throws a TypeError on \<^verbatim>\<open>null\<close> and
  \<^verbatim>\<open>undefined\<close>; a missing property reads as \<^verbatim>\<open>undefined\<close> and is printed so.
\<close>

fun error_message :: "js_error \<Rightarrow> string outcome" where
  "error_message (Error m) = Inr m"
| "error_message ThrownValue = Inr ''undefined''"
| "error_message ThrownNull =
     Inl (Error ''Cannot read properties of null (reading 'message')'')"
| "error_message ThrownUndefined =
     Inl (Error ''Cannot read properties of undefined (reading 'message')'')"

text \<open>
  Modelled from the spec: the SDK's \<^verbatim>\<open>TopicId\<close> class is not part of this repository.
  A topic identifier is three numbers, as in the spec's example \<^verbatim>\<open>0.0.1234\<close>.
\<close>

record topic_id =
  shard :: nat
  realm :: nat
  num :: nat

fun digit :: "nat \<Rightarrow> char" where
  "digit n = ''0123456789'' ! n"

fun decimal :: "nat \<Rightarrow> string" where
  "decimal n = (if n < 10 then [digit n] else decimal (n div 10) @ [digit (n mod 10)])"

text \<open>
  Modelled from the spec: \<^verbatim>\<open>TopicId.toString()\<close> of the SDK, which is not part of this
  repository. The spec gives the string form by example (\<^verbatim>\<open>0.0.1234\<close>): the three
  numbers in decimal, joined by dots.
\<close>

definition topic_id_toString :: "topic_id \<Rightarrow> string" where
  "topic_id_toString t = decimal (shard t) @ ''.'' @ decimal (realm t) @ ''.'' @ decimal (num t)"

text \<open>
  \<^verbatim>\<open>receipt.status\<close>: absent (\<^verbatim>\<open>undefined\<close> or \<^verbatim>\<open>null\<close>), or a status object, kept as
  the text its \<^verbatim>\<open>toString()\<close> returns.
\<close>

datatype js_status = StatusUndefined | StatusNull | Status string

record receipt =
  receipt_topicId :: "topic_id option"
  receipt_status :: js_status

text \<open>JavaScript truthiness of the values the script tests.\<close>

fun truthy_string :: "string \<Rightarrow> bool" where
  "truthy_string s = (s \<noteq> [])"

fun truthy_status :: "js_status \<Rightarrow> bool" where
  "truthy_status StatusUndefined = False"
| "truthy_status StatusNull = False"
| "truthy_status (Status t) = True"

text \<open>
  \<^verbatim>\<open>status.toString()\<close> is a property access: on \<^verbatim>\<open>undefined\<close> and \<^verbatim>\<open>null\<close> it throws
  a TypeError.
\<close>

fun status_toString :: "js_status \<Rightarrow> string outcome" where
  "status_toString StatusUndefined =
     Inl (Error ''Cannot read properties of undefined (reading 'toString')'')"
| "status_toString StatusNull =
     Inl (Error ''Cannot read properties of null (reading 'toString')'')"
| "status_toString (Status t) = Inr t"

text \<open>String conversion inside a template literal, \<^verbatim>\<open>`${status}`\<close>: it never throws.\<close>

fun status_String :: "js_status \<Rightarrow> string" where
  "status_String StatusUndefined = ''undefined''"
| "status_String StatusNull = ''null''"
| "status_String (Status t) = t"

section \<open>The page and the script's state\<close>

text \<open>
  The DOM surface. An element the page lacks is \<open>None\<close> (\<^verbatim>\<open>getElementById\<close> returns
  \<^verbatim>\<open>null\<close>); otherwise the field holds what the script reads or writes: the
  \<^verbatim>\<open>textContent\<close> of \<^verbatim>\<open>#accountId\<close> and \<^verbatim>\<open>#disconnectButton\<close>, the \<^verbatim>\<open>innerHTML\<close> of
  \<^verbatim>\<open>#topicIdDisplay\<close> and \<^verbatim>\<open>#messageStatus\<close>, the \<^verbatim>\<open>value\<close> of \<^verbatim>\<open>#messageInput\<close>. For
  the two other buttons only their presence matters.
\<close>

record dom =
  accountIdElement :: "string option"
  disconnectButton :: "string option"
  topicIdDisplay :: "string option"
  messageStatus :: "string option"
  messageInput :: "string option"
  createTopicButton :: bool
  submitMessageButton :: bool

text \<open>The library operations the script invokes, in the order it invokes them.\<close>

datatype lib_call =
    Init
  | OpenModal
  | DisconnectAll
  | BuildTopicCreate string
  | BuildTopicMessageSubmit string string
  | FreezeWithSigner
  | ExecuteWithSigner
  | GetReceiptWithSigner

text \<open>
  The three globals of lines 15-17, the stored initialisation promise of line 49 (a promise
  is identified by the number of the \<^verbatim>\<open>init()\<close> call that returned it), the page,
  whether the click listeners of lines 260-276 are registered, and the trace of library
  calls. Console output is not part of the state.
\<close>

record state =
  accountId :: string
  isConnected :: bool
  topicId :: string
  walletConnectInitPromise :: "nat option"
  document :: dom
  listening :: bool
  calls :: "lib_call list"

definition initial_state :: "dom \<Rightarrow> state" where
  "initial_state d =
     \<lparr>accountId = [], isConnected = False, topicId = [], walletConnectInitPromise = None,
      document = d, listening = False, calls = []\<rparr>"

definition invoke :: "lib_call \<Rightarrow> state \<Rightarrow> state" where
  "invoke c s = s\<lparr>calls := calls s @ [c]\<rparr>"

subsection \<open>DOM helpers (lines 106-132)\<close>

definition updateAccountIdDisplay :: "string \<Rightarrow> dom \<Rightarrow> dom" where
  "updateAccountIdDisplay v d =
     (if accountIdElement d = None \<or> disconnectButton d = None then d
      else d\<lparr>accountIdElement := Some v,
             disconnectButton :=
               Some (if truthy_string v \<and> v \<noteq> ''No account connected''
                     then ''Connected - Click to Disconnect''
                     else ''Connect to WalletConnect'')\<rparr>)"

definition updateTopicIdDisplay :: "string \<Rightarrow> dom \<Rightarrow> dom" where
  "updateTopicIdDisplay html d =
     (if topicIdDisplay d \<noteq> None then d\<lparr>topicIdDisplay := Some html\<rparr> else d)"

definition updateMessageStatus :: "string \<Rightarrow> dom \<Rightarrow> dom" where
  "updateMessageStatus html d =
     (if messageStatus d \<noteq> None then d\<lparr>messageStatus := Some html\<rparr> else d)"

definition render_account :: "string \<Rightarrow> state \<Rightarrow> state" where
  "render_account v s = s\<lparr>document := updateAccountIdDisplay v (document s)\<rparr>"

definition render_topic :: "string \<Rightarrow> state \<Rightarrow> state" where
  "render_topic html s = s\<lparr>document := updateTopicIdDisplay html (document s)\<rparr>"

definition render_message :: "string \<Rightarrow> state \<Rightarrow> state" where
  "render_message html s = s\<lparr>document := updateMessageStatus html (document s)\<rparr>"

section \<open>The asynchronous functions, segment by segment\<close>

text \<open>
  An \<^verbatim>\<open>async\<close> function runs without interruption up to its next \<^verbatim>\<open>await\<close>, where it
  is suspended until the awaited promise settles; other handlers may run in between.
  Each function is therefore a chain of segments. A segment takes what the awaited
  promise settled to and the current state, and ends suspended at the next \<^verbatim>\<open>await\<close>,
  fulfilled (the function returned) or rejected (an error left the function).
\<close>

datatype task =
    PageLoad_awaits_init nat
  | Connect_awaits_init nat
  | Connect_awaits_openModal
  | Disconnect_awaits_disconnectAll
  | Create_awaits_freeze
  | Create_awaits_execute
  | Create_awaits_receipt
  | Submit_awaits_freeze
  | Submit_awaits_execute
  | Submit_awaits_receipt

datatype completion = Await task | Fulfilled | Rejected js_error

subsection \<open>initializeWalletConnect (lines 49-56)\<close>

text \<open>
  The part before the \<^verbatim>\<open>await\<close>: the state afterwards and the promise that is awaited.
  \<^verbatim>\<open>dappConnector.init\<close> is an \<^verbatim>\<open>async\<close> method, so the call returns a promise (a
  truthy object) and a failure of the initialisation is a rejection of that promise.
\<close>

definition initializeWalletConnect :: "state \<Rightarrow> state \<times> nat" where
  "initializeWalletConnect s =
     (case walletConnectInitPromise s of
        None \<Rightarrow>
          (let p = count_list (calls s) Init
           in (invoke Init (s\<lparr>walletConnectInitPromise := Some p\<rparr>), p))
      | Some p \<Rightarrow> (s, p))"

subsection \<open>syncWalletconnectState (lines 59-72)\<close>

text \<open>
  \<open>account\<close> is the value of \<^verbatim>\<open>dappConnector.signers[0]?.getAccountId()?.toString()\<close>:
  \<open>None\<close> for \<^verbatim>\<open>undefined\<close>.
\<close>

definition syncWalletconnectState :: "string option \<Rightarrow> state \<Rightarrow> state" where
  "syncWalletconnectState account s =
     (let cleared = render_account ''No account connected''
                      (s\<lparr>accountId := [], isConnected := False\<rparr>)
      in case account of
           None \<Rightarrow> cleared
         | Some a \<Rightarrow>
             if truthy_string a
             then (let s1 = s\<lparr>accountId := a, isConnected := True\<rparr>
                   in render_account (accountId s1) s1)
             else cleared)"

subsection \<open>The DOMContentLoaded handler (lines 249-277)\<close>

definition pageLoad_start :: "state \<Rightarrow> state \<times> completion" where
  "pageLoad_start s =
     (let (s1, p) = initializeWalletConnect s in (s1, Await (PageLoad_awaits_init p)))"

definition pageLoad_afterInit :: "unit outcome \<Rightarrow> string option \<Rightarrow> state \<Rightarrow> state \<times> completion" where
  "pageLoad_afterInit r account s =
     (case r of
        Inl e \<Rightarrow> (s, Rejected e)
      | Inr _ \<Rightarrow> ((syncWalletconnectState account s)\<lparr>listening := True\<rparr>, Fulfilled))"

subsection \<open>openWalletConnectModal (lines 74-86)\<close>

definition openWalletConnectModal_start :: "state \<Rightarrow> state \<times> completion" where
  "openWalletConnectModal_start s =
     (let (s1, p) = initializeWalletConnect s in (s1, Await (Connect_awaits_init p)))"

definition openWalletConnectModal_afterInit :: "unit outcome \<Rightarrow> state \<Rightarrow> state \<times> completion" where
  "openWalletConnectModal_afterInit r s =
     (case r of
        Inl e \<Rightarrow> (s, Fulfilled)
      | Inr _ \<Rightarrow>
          if \<not> isConnected s then (invoke OpenModal s, Await Connect_awaits_openModal)
          else (s, Fulfilled))"

definition openWalletConnectModal_afterModal ::
  "unit outcome \<Rightarrow> string option \<Rightarrow> state \<Rightarrow> state \<times> completion" where
  "openWalletConnectModal_afterModal r account s =
     (case r of
        Inl e \<Rightarrow> (s, Fulfilled)
      | Inr _ \<Rightarrow> (syncWalletconnectState account s, Fulfilled))"

subsection \<open>disconnectWallet (lines 88-102)\<close>

definition disconnectWallet_start :: "state \<Rightarrow> state \<times> completion" where
  "disconnectWallet_start s =
     (if isConnected s then (invoke DisconnectAll s, Await Disconnect_awaits_disconnectAll)
      else (s, Fulfilled))"

definition disconnectWallet_afterDisconnectAll :: "unit outcome \<Rightarrow> state \<Rightarrow> state \<times> completion" where
  "disconnectWallet_afterDisconnectAll r s =
     (case r of
        Inl e \<Rightarrow> (s, Fulfilled)
      | Inr _ \<Rightarrow>
          (render_account ''No account connected'' (s\<lparr>isConnected := False, accountId := []\<rparr>),
           Fulfilled))"

subsection \<open>handleTopicCreation (lines 135-182)\<close>

definition hashscanLink :: "string \<Rightarrow> string" where
  "hashscanLink t = ''https://hashscan.io/testnet/topic/'' @ t"

definition topic_created_html :: "string \<Rightarrow> string" where
  "topic_created_html t =
     ''\<newline>        '' @ t @
     ''\<newline>        <br/><br/>\<newline>        <a href=\"'' @ hashscanLink t @
     ''\" target=\"_blank\" class=\"hashscan-link\">\<newline>          View on HashScan\<newline>        </a>\<newline>      ''"

text \<open>
  The catch block of lines 178-181. Reading \<^verbatim>\<open>err.message\<close> may itself throw; nothing
  catches that, so the handler's promise is then rejected.
\<close>

definition handleTopicCreation_catch :: "js_error \<Rightarrow> state \<Rightarrow> state \<times> completion" where
  "handleTopicCreation_catch err s =
     (case error_message err of
        Inl thrown \<Rightarrow> (s, Rejected thrown)
      | Inr m \<Rightarrow> (render_topic (''Topic creation error: '' @ m) s, Fulfilled))"

definition handleTopicCreation_start :: "unit outcome \<Rightarrow> state \<Rightarrow> state \<times> completion" where
  "handleTopicCreation_start build s =
     (if \<not> isConnected s then (render_topic ''Connect a wallet first!'' s, Fulfilled)
      else
        (let s1 = invoke (BuildTopicCreate ''Hello from Vanilla JS!'') s
         in case build of
              Inl err \<Rightarrow> handleTopicCreation_catch err s1
            | Inr _ \<Rightarrow> (invoke FreezeWithSigner s1, Await Create_awaits_freeze)))"

definition handleTopicCreation_afterFreeze :: "unit outcome \<Rightarrow> state \<Rightarrow> state \<times> completion" where
  "handleTopicCreation_afterFreeze r s =
     (case r of
        Inl err \<Rightarrow> handleTopicCreation_catch err s
      | Inr _ \<Rightarrow> (invoke ExecuteWithSigner s, Await Create_awaits_execute))"

definition handleTopicCreation_afterExecute :: "unit outcome \<Rightarrow> state \<Rightarrow> state \<times> completion" where
  "handleTopicCreation_afterExecute r s =
     (case r of
        Inl err \<Rightarrow> handleTopicCreation_catch err s
      | Inr _ \<Rightarrow> (invoke GetReceiptWithSigner s, Await Create_awaits_receipt))"

definition handleTopicCreation_afterReceipt :: "receipt outcome \<Rightarrow> state \<Rightarrow> state \<times> completion" where
  "handleTopicCreation_afterReceipt r s =
     (case r of
        Inl err \<Rightarrow> handleTopicCreation_catch err s
      | Inr rc \<Rightarrow>
          (case receipt_topicId rc of
             Some t \<Rightarrow>
               (let s1 = s\<lparr>topicId := topic_id_toString t\<rparr>
                in (render_topic (topic_created_html (topicId s1)) s1, Fulfilled))
           | None \<Rightarrow> (render_topic ''Topic creation failed (no topicId)'' s, Fulfilled)))"

subsection \<open>handleTopicMessageSubmission (lines 185-246)\<close>

text \<open>The dash of line 193 is U+2014, three bytes in UTF-8.\<close>

definition no_topic_prompt :: string where
  "no_topic_prompt =
     ''No topic to submit to'' @ [CHR 0xE2, CHR 0x80, CHR 0x94] @ ''create a topic first!''"

definition message_submitted_html :: "string \<Rightarrow> string" where
  "message_submitted_html t =
     ''\<newline>        Message submitted to topic '' @ t @ '' successfully!'' @
     ''\<newline>        <br/><br/>\<newline>        <a href=\"'' @ hashscanLink t @
     ''\" target=\"_blank\" class=\"hashscan-link\">\<newline>          View on HashScan\<newline>        </a>\<newline>      ''"

text \<open>The catch block of lines 242-245, like the one of topic creation.\<close>

definition handleTopicMessageSubmission_catch ::
  "js_error \<Rightarrow> state \<Rightarrow> state \<times> completion" where
  "handleTopicMessageSubmission_catch err s =
     (case error_message err of
        Inl thrown \<Rightarrow> (s, Rejected thrown)
      | Inr m \<Rightarrow> (render_message (''Message submit error: '' @ m) s, Fulfilled))"

text \<open>
  The condition of line 225, \<^verbatim>\<open>receipt.status && receipt.status.toString() === "SUCCESS"\<close>:
  \<^verbatim>\<open>&&\<close> evaluates its right operand only when the left one is truthy.
\<close>

definition status_is_success :: "js_status \<Rightarrow> bool outcome" where
  "status_is_success st =
     (if truthy_status st
      then (case status_toString st of Inl e \<Rightarrow> Inl e | Inr t \<Rightarrow> Inr (t = ''SUCCESS''))
      else Inr False)"

definition handleTopicMessageSubmission_start :: "unit outcome \<Rightarrow> state \<Rightarrow> state \<times> completion" where
  "handleTopicMessageSubmission_start build s =
     (if \<not> isConnected s then (render_message ''Connect a wallet first!'' s, Fulfilled)
      else if \<not> truthy_string (topicId s) then (render_message no_topic_prompt s, Fulfilled)
      else
        (let prompt = (render_message ''Please enter a message first.'' s, Fulfilled)
         in case messageInput (document s) of
              None \<Rightarrow> prompt
            | Some m \<Rightarrow>
                if \<not> truthy_string m then prompt
                else
                  (let s1 = invoke (BuildTopicMessageSubmit (topicId s) m) s
                   in case build of
                        Inl err \<Rightarrow> handleTopicMessageSubmission_catch err s1
                      | Inr _ \<Rightarrow> (invoke FreezeWithSigner s1, Await Submit_awaits_freeze))))"

definition handleTopicMessageSubmission_afterFreeze ::
  "unit outcome \<Rightarrow> state \<Rightarrow> state \<times> completion" where
  "handleTopicMessageSubmission_afterFreeze r s =
     (case r of
        Inl err \<Rightarrow> handleTopicMessageSubmission_catch err s
      | Inr _ \<Rightarrow> (invoke ExecuteWithSigner s, Await Submit_awaits_execute))"

definition handleTopicMessageSubmission_afterExecute ::
  "unit outcome \<Rightarrow> state \<Rightarrow> state \<times> completion" where
  "handleTopicMessageSubmission_afterExecute r s =
     (case r of
        Inl err \<Rightarrow> handleTopicMessageSubmission_catch err s
      | Inr _ \<Rightarrow> (invoke GetReceiptWithSigner s, Await Submit_awaits_receipt))"

definition handleTopicMessageSubmission_afterReceipt ::
  "receipt outcome \<Rightarrow> state \<Rightarrow> state \<times> completion" where
  "handleTopicMessageSubmission_afterReceipt r s =
     (case r of
        Inl err \<Rightarrow> handleTopicMessageSubmission_catch err s
      | Inr rc \<Rightarrow>
          (case status_is_success (receipt_status rc) of
             Inl err \<Rightarrow> handleTopicMessageSubmission_catch err s
           | Inr ok \<Rightarrow>
               if ok then (render_message (message_submitted_html (topicId s)) s, Fulfilled)
               else (render_message
                       (''Message submission failed: '' @ status_String (receipt_status rc)) s,
                     Fulfilled)))"

subsection \<open>The click listener of the connect/disconnect button (lines 261-267)\<close>

definition disconnectButton_click :: "state \<Rightarrow> state \<times> completion" where
  "disconnectButton_click s =
     (if isConnected s then disconnectWallet_start s else openWalletConnectModal_start s)"

section \<open>Runs without interference\<close>

text \<open>
  A run of a function during which no other handler gets to run: each segment continues
  in the state the previous one left. The arguments are what the awaited library calls
  settle to, in the order of the source.
\<close>

fun then_resume ::
  "state \<times> completion \<Rightarrow> (state \<Rightarrow> state \<times> completion) \<Rightarrow> state \<times> completion" where
  "then_resume (s, Await t) k = k s"
| "then_resume (s, Fulfilled) k = (s, Fulfilled)"
| "then_resume (s, Rejected e) k = (s, Rejected e)"

definition pageLoad :: "unit outcome \<Rightarrow> string option \<Rightarrow> state \<Rightarrow> state \<times> completion" where
  "pageLoad init account s = then_resume (pageLoad_start s) (pageLoad_afterInit init account)"

definition openWalletConnectModal ::
  "unit outcome \<Rightarrow> unit outcome \<Rightarrow> string option \<Rightarrow> state \<Rightarrow> state \<times> completion" where
  "openWalletConnectModal init modal account s =
     then_resume
       (then_resume (openWalletConnectModal_start s) (openWalletConnectModal_afterInit init))
       (openWalletConnectModal_afterModal modal account)"

definition disconnectWallet :: "unit outcome \<Rightarrow> state \<Rightarrow> state \<times> completion" where
  "disconnectWallet disconnected s =
     then_resume (disconnectWallet_start s) (disconnectWallet_afterDisconnectAll disconnected)"

definition handleTopicCreation ::
  "unit outcome \<Rightarrow> unit outcome \<Rightarrow> unit outcome \<Rightarrow> receipt outcome \<Rightarrow> state
     \<Rightarrow> state \<times> completion" where
  "handleTopicCreation build frozen executed rc s =
     then_resume
       (then_resume
          (then_resume (handleTopicCreation_start build s) (handleTopicCreation_afterFreeze frozen))
          (handleTopicCreation_afterExecute executed))
       (handleTopicCreation_afterReceipt rc)"

definition handleTopicMessageSubmission ::
  "unit outcome \<Rightarrow> unit outcome \<Rightarrow> unit outcome \<Rightarrow> receipt outcome \<Rightarrow> state
     \<Rightarrow> state \<times> completion" where
  "handleTopicMessageSubmission build frozen executed rc s =
     then_resume
       (then_resume
          (then_resume (handleTopicMessageSubmission_start build s)
             (handleTopicMessageSubmission_afterFreeze frozen))
          (handleTopicMessageSubmission_afterExecute executed))
       (handleTopicMessageSubmission_afterReceipt rc)"

section \<open>The page as a transition system\<close>

text \<open>
  A configuration is the state together with the suspended invocations. One step is one
  uninterrupted piece of script: the DOMContentLoaded handler starting on the freshly
  loaded page, a click on a button that has its listener, or a suspended invocation
  resumed with what its promise settled to. The user typing into the input field is a
  step of the environment. \<open>init_result p\<close> is what the initialisation promise \<open>p\<close>
  settles to: every invocation awaiting \<open>p\<close> is resumed with that same value.
\<close>

fun settle :: "state \<times> completion \<Rightarrow> task list \<Rightarrow> state \<times> task list" where
  "settle (s, Await t) ts = (s, t # ts)"
| "settle (s, Fulfilled) ts = (s, ts)"
| "settle (s, Rejected e) ts = (s, ts)"

inductive step :: "(nat \<Rightarrow> unit outcome) \<Rightarrow> state \<times> task list \<Rightarrow> state \<times> task list \<Rightarrow> bool"
  for init_result :: "nat \<Rightarrow> unit outcome" where
  DOMContentLoaded:
    "step init_result (initial_state d, []) (settle (pageLoad_start (initial_state d)) [])"
| input_typed:
    "messageInput (document s) \<noteq> None \<Longrightarrow>
     step init_result (s, ts) (s\<lparr>document := (document s)\<lparr>messageInput := Some v\<rparr>\<rparr>, ts)"
| click_disconnectButton:
    "listening s \<Longrightarrow> disconnectButton (document s) \<noteq> None \<Longrightarrow>
     step init_result (s, ts) (settle (disconnectButton_click s) ts)"
| click_createTopicButton:
    "listening s \<Longrightarrow> createTopicButton (document s) \<Longrightarrow>
     step init_result (s, ts) (settle (handleTopicCreation_start build s) ts)"
| click_submitMessageButton:
    "listening s \<Longrightarrow> submitMessageButton (document s) \<Longrightarrow>
     step init_result (s, ts) (settle (handleTopicMessageSubmission_start build s) ts)"
| resume_pageLoad:
    "PageLoad_awaits_init p \<in> set ts \<Longrightarrow>
     step init_result (s, ts)
       (settle (pageLoad_afterInit (init_result p) account s)
          (remove1 (PageLoad_awaits_init p) ts))"
| resume_connect_init:
    "Connect_awaits_init p \<in> set ts \<Longrightarrow>
     step init_result (s, ts)
       (settle (openWalletConnectModal_afterInit (init_result p) s)
          (remove1 (Connect_awaits_init p) ts))"
| resume_connect_openModal:
    "Connect_awaits_openModal \<in> set ts \<Longrightarrow>
     step init_result (s, ts)
       (settle (openWalletConnectModal_afterModal r account s)
          (remove1 Connect_awaits_openModal ts))"
| resume_disconnect:
    "Disconnect_awaits_disconnectAll \<in> set ts \<Longrightarrow>
     step init_result (s, ts)
       (settle (disconnectWallet_afterDisconnectAll r s)
          (remove1 Disconnect_awaits_disconnectAll ts))"
| resume_create_freeze:
    "Create_awaits_freeze \<in> set ts \<Longrightarrow>
     step init_result (s, ts)
       (settle (handleTopicCreation_afterFreeze r s) (remove1 Create_awaits_freeze ts))"
| resume_create_execute:
    "Create_awaits_execute \<in> set ts \<Longrightarrow>
     step init_result (s, ts)
       (settle (handleTopicCreation_afterExecute r s) (remove1 Create_awaits_execute ts))"
| resume_create_receipt:
    "Create_awaits_receipt \<in> set ts \<Longrightarrow>
     step init_result (s, ts)
       (settle (handleTopicCreation_afterReceipt rc s) (remove1 Create_awaits_receipt ts))"
| resume_submit_freeze:
    "Submit_awaits_freeze \<in> set ts \<Longrightarrow>
     step init_result (s, ts)
       (settle (handleTopicMessageSubmission_afterFreeze r s) (remove1 Submit_awaits_freeze ts))"
| resume_submit_execute:
    "Submit_awaits_execute \<in> set ts \<Longrightarrow>
     step init_result (s, ts)
       (settle (handleTopicMessageSubmission_afterExecute r s) (remove1 Submit_awaits_execute ts))"
| resume_submit_receipt:
    "Submit_awaits_receipt \<in> set ts \<Longrightarrow>
     step init_result (s, ts)
       (settle (handleTopicMessageSubmission_afterReceipt rc s) (remove1 Submit_awaits_receipt ts))"

inductive reachable :: "(nat \<Rightarrow> unit outcome) \<Rightarrow> state \<times> task list \<Rightarrow> bool"
  for init_result :: "nat \<Rightarrow> unit outcome" where
  loaded: "reachable init_result (initial_state d, [])"
| stepped: "reachable init_result c \<Longrightarrow> step init_result c c' \<Longrightarrow> reachable init_result c'"

section \<open>Predicates used to state the properties\<close>

text \<open>The session invariant of the spec: connected exactly when an account is stored.\<close>

definition session_invariant :: "state \<Rightarrow> bool" where
  "session_invariant s = (isConnected s = (accountId s \<noteq> []))"

text \<open>Two states agree on the session globals; on all three globals.\<close>

definition same_session :: "state \<Rightarrow> state \<Rightarrow> bool" where
  "same_session s s' = (accountId s' = accountId s \<and> isConnected s' = isConnected s)"

definition same_globals :: "state \<Rightarrow> state \<Rightarrow> bool" where
  "same_globals s s' = (same_session s s' \<and> topicId s' = topicId s)"

text \<open>A text occurs in the content of an element; in one of the four elements written.\<close>

definition shown_in :: "string \<Rightarrow> string option \<Rightarrow> bool" where
  "shown_in m e = (case e of None \<Rightarrow> False | Some t \<Rightarrow> sublist m t)"

definition shown_on_page :: "string \<Rightarrow> dom \<Rightarrow> bool" where
  "shown_on_page m d =
     (shown_in m (accountIdElement d) \<or> shown_in m (disconnectButton d) \<or>
      shown_in m (topicIdDisplay d) \<or> shown_in m (messageStatus d))"

text \<open>
  An outcome whose thrown value, if there is one, has a \<^verbatim>\<open>message\<close> property that can
  be read: anything thrown but \<^verbatim>\<open>null\<close> and \<^verbatim>\<open>undefined\<close>.
\<close>

definition message_readable :: "'a outcome \<Rightarrow> bool" where
  "message_readable r =
     (case r of
        Inl e \<Rightarrow> (case error_message e of Inl thrown \<Rightarrow> False | Inr m \<Rightarrow> True)
      | Inr v \<Rightarrow> True)"

fun not_rejected :: "completion \<Rightarrow> bool" where
  "not_rejected (Rejected e) = False"
| "not_rejected (Await t) = True"
| "not_rejected Fulfilled = True"

text \<open>
  The initialisation promise a suspended invocation awaits, if it awaits one; and the
  invariant of the initialisation guard: \<^verbatim>\<open>init()\<close> has been called once when a promise is
  stored and never otherwise, and whoever awaits an initialisation awaits the stored promise.
\<close>

fun awaited_init :: "task \<Rightarrow> nat option" where
  "awaited_init (PageLoad_awaits_init p) = Some p"
| "awaited_init (Connect_awaits_init p) = Some p"
| "awaited_init t = None"

definition awaits_stored_promise :: "state \<Rightarrow> task \<Rightarrow> bool" where
  "awaits_stored_promise s t =
     (case awaited_init t of None \<Rightarrow> True | Some p \<Rightarrow> walletConnectInitPromise s = Some p)"

definition init_invariant :: "state \<times> task list \<Rightarrow> bool" where
  "init_invariant c =
     (count_list (calls (fst c)) Init =
        (if walletConnectInitPromise (fst c) = None then 0 else 1) \<and>
      list_all (awaits_stored_promise (fst c)) (snd c))"

text \<open>
  A segment result that keeps the stored promise and the number of \<^verbatim>\<open>init()\<close> calls, and
  does not end awaiting an initialisation.
\<close>

definition init_untouched :: "state \<Rightarrow> state \<times> completion \<Rightarrow> bool" where
  "init_untouched s r =
     (walletConnectInitPromise (fst r) = walletConnectInitPromise s \<and>
      count_list (calls (fst r)) Init = count_list (calls s) Init \<and>
      (case snd r of Await t \<Rightarrow> awaited_init t = None | _ \<Rightarrow> True))"

section \<open>Example pages and states\<close>

definition page_with_all_elements :: dom where
  "page_with_all_elements =
     \<lparr>accountIdElement = Some [], disconnectButton = Some ''Connect'',
      topicIdDisplay = Some [], messageStatus = Some [], messageInput = Some [],
      createTopicButton = True, submitMessageButton = True\<rparr>"

text \<open>The page after it has loaded with a wallet session restored for account 0.0.5005.\<close>

definition connected_state :: state where
  "connected_state =
     fst (pageLoad (Inr ()) (Some ''0.0.5005'') (initial_state page_with_all_elements))"

text \<open>The page after it has loaded with no wallet session.\<close>

definition disconnected_state :: state where
  "disconnected_state = fst (pageLoad (Inr ()) None (initial_state page_with_all_elements))"

text \<open>The connected page after a topic creation whose receipt carries topic 0.0.1234.\<close>

definition topic_created_state :: state where
  "topic_created_state =
     fst (handleTopicCreation (Inr ()) (Inr ()) (Inr ())
            (Inr \<lparr>receipt_topicId = Some \<lparr>shard = 0, realm = 0, num = 1234\<rparr>,
                  receipt_status = Status ''SUCCESS''\<rparr>) connected_state)"

text \<open>The same page once the user has typed a message.\<close>

definition ready_to_submit_state :: state where
  "ready_to_submit_state =
     topic_created_state
       \<lparr>document := (document topic_created_state)\<lparr>messageInput := Some ''gm''\<rparr>\<rparr>"

section \<open>Proof setup\<close>

declare decimal.simps [simp del]

lemmas segment_defs =
  handleTopicCreation_start_def handleTopicCreation_afterFreeze_def
  handleTopicCreation_afterExecute_def handleTopicCreation_afterReceipt_def
  handleTopicMessageSubmission_start_def handleTopicMessageSubmission_afterFreeze_def
  handleTopicMessageSubmission_afterExecute_def handleTopicMessageSubmission_afterReceipt_def
  openWalletConnectModal_start_def openWalletConnectModal_afterInit_def
  openWalletConnectModal_afterModal_def disconnectWallet_start_def
  disconnectWallet_afterDisconnectAll_def pageLoad_start_def pageLoad_afterInit_def
  disconnectButton_click_def

lemmas run_defs =
  pageLoad_def openWalletConnectModal_def disconnectWallet_def handleTopicCreation_def
  handleTopicMessageSubmission_def

lemmas effect_defs =
  render_topic_def render_message_def render_account_def invoke_def
  handleTopicCreation_catch_def handleTopicMessageSubmission_catch_def

lemma fst_settle [simp]: "fst (settle r ts) = fst r"
  by (cases r, rename_tac s c, case_tac c) simp_all

subsection \<open>The example states, evaluated\<close>

lemma connected_state_eq:
  "connected_state =
     \<lparr>accountId = ''0.0.5005'', isConnected = True, topicId = [],
      walletConnectInitPromise = Some 0,
      document =
        \<lparr>accountIdElement = Some ''0.0.5005'',
         disconnectButton = Some ''Connected - Click to Disconnect'',
         topicIdDisplay = Some [], messageStatus = Some [], messageInput = Some [],
         createTopicButton = True, submitMessageButton = True\<rparr>,
      listening = True, calls = [Init]\<rparr>"
  by (simp add: connected_state_def run_defs segment_defs initializeWalletConnect_def
      initial_state_def page_with_all_elements_def syncWalletconnectState_def effect_defs
      updateAccountIdDisplay_def)

lemma disconnected_state_eq:
  "disconnected_state =
     \<lparr>accountId = [], isConnected = False, topicId = [],
      walletConnectInitPromise = Some 0,
      document =
        \<lparr>accountIdElement = Some ''No account connected'',
         disconnectButton = Some ''Connect to WalletConnect'',
         topicIdDisplay = Some [], messageStatus = Some [], messageInput = Some [],
         createTopicButton = True, submitMessageButton = True\<rparr>,
      listening = True, calls = [Init]\<rparr>"
  by (simp add: disconnected_state_def run_defs segment_defs initializeWalletConnect_def
      initial_state_def page_with_all_elements_def syncWalletconnectState_def effect_defs
      updateAccountIdDisplay_def)

lemma topic_created_state_eq:
  "topic_created_state =
     \<lparr>accountId = ''0.0.5005'', isConnected = True, topicId = ''0.0.1234'',
      walletConnectInitPromise = Some 0,
      document =
        \<lparr>accountIdElement = Some ''0.0.5005'',
         disconnectButton = Some ''Connected - Click to Disconnect'',
         topicIdDisplay = Some (topic_created_html ''0.0.1234''), messageStatus = Some [],
         messageInput = Some [], createTopicButton = True, submitMessageButton = True\<rparr>,
      listening = True,
      calls = [Init, BuildTopicCreate ''Hello from Vanilla JS!'', FreezeWithSigner,
               ExecuteWithSigner, GetReceiptWithSigner]\<rparr>"
  by (simp add: topic_created_state_def connected_state_eq run_defs segment_defs effect_defs
      updateTopicIdDisplay_def topic_id_toString_def decimal.simps)

lemma ready_to_submit_state_eq:
  "ready_to_submit_state =
     \<lparr>accountId = ''0.0.5005'', isConnected = True, topicId = ''0.0.1234'',
      walletConnectInitPromise = Some 0,
      document =
        \<lparr>accountIdElement = Some ''0.0.5005'',
         disconnectButton = Some ''Connected - Click to Disconnect'',
         topicIdDisplay = Some (topic_created_html ''0.0.1234''), messageStatus = Some [],
         messageInput = Some ''gm'', createTopicButton = True, submitMessageButton = True\<rparr>,
      listening = True,
      calls = [Init, BuildTopicCreate ''Hello from Vanilla JS!'', FreezeWithSigner,
               ExecuteWithSigner, GetReceiptWithSigner]\<rparr>"
  by (simp add: ready_to_submit_state_def topic_created_state_eq)

text \<open>Loading the page leads to the state \<open>pageLoad\<close> computes, with nothing suspended.\<close>

lemma reachable_after_pageLoad:
  "reachable (\<lambda>p. Inr ()) (fst (pageLoad (Inr ()) account (initial_state d)), [])"
proof -
  let ?ir = "\<lambda>p::nat. Inr () :: unit outcome"
  let ?s1 = "fst (pageLoad_start (initial_state d))"
  have "reachable ?ir (initial_state d, [])"
    by (rule reachable.loaded)
  then have "reachable ?ir (settle (pageLoad_start (initial_state d)) [])"
    by (rule reachable.stepped) (rule step.DOMContentLoaded)
  then have suspended: "reachable ?ir (?s1, [PageLoad_awaits_init 0])"
    by (simp add: pageLoad_start_def initializeWalletConnect_def initial_state_def invoke_def)
  have "step ?ir (?s1, [PageLoad_awaits_init 0])
          (settle (pageLoad_afterInit (?ir 0) account ?s1)
             (remove1 (PageLoad_awaits_init 0) [PageLoad_awaits_init 0]))"
    by (rule step.resume_pageLoad) simp
  with suspended have "reachable ?ir
          (settle (pageLoad_afterInit (Inr ()) account ?s1)
             (remove1 (PageLoad_awaits_init 0) [PageLoad_awaits_init 0]))"
    by (rule reachable.stepped)
  then show ?thesis
    by (simp add: pageLoad_def pageLoad_start_def pageLoad_afterInit_def
        initializeWalletConnect_def initial_state_def)
qed

subsection \<open>Runs that reach the receipt\<close>

lemma handleTopicCreation_reaches_receipt:
  "isConnected s \<Longrightarrow>
     handleTopicCreation (Inr u) (Inr v) (Inr w) rc s =
       handleTopicCreation_afterReceipt rc
         (invoke GetReceiptWithSigner (invoke ExecuteWithSigner (invoke FreezeWithSigner
            (invoke (BuildTopicCreate ''Hello from Vanilla JS!'') s))))"
  by (simp add: handleTopicCreation_def handleTopicCreation_start_def
      handleTopicCreation_afterFreeze_def handleTopicCreation_afterExecute_def)

lemma handleTopicMessageSubmission_reaches_receipt:
  "isConnected s \<Longrightarrow> topicId s \<noteq> [] \<Longrightarrow> messageInput (document s) = Some m \<Longrightarrow> m \<noteq> [] \<Longrightarrow>
     handleTopicMessageSubmission (Inr u) (Inr v) (Inr w) rc s =
       handleTopicMessageSubmission_afterReceipt rc
         (invoke GetReceiptWithSigner (invoke ExecuteWithSigner (invoke FreezeWithSigner
            (invoke (BuildTopicMessageSubmit (topicId s) m) s))))"
  by (simp add: handleTopicMessageSubmission_def handleTopicMessageSubmission_start_def
      handleTopicMessageSubmission_afterFreeze_def handleTopicMessageSubmission_afterExecute_def)

subsection \<open>Texts\<close>

lemma topic_id_toString_nonempty: "topic_id_toString t \<noteq> []"
  by (simp add: topic_id_toString_def)

lemma status_is_success_iff:
  "status_is_success st = Inr (status_toString st = Inr ''SUCCESS'')"
  by (cases st) (simp_all add: status_is_success_def)

lemma sublist_topic_created_html_id: "sublist i (topic_created_html i)"
  unfolding topic_created_html_def sublist_def
  by (rule exI [of _ "''\<newline>        ''"]) simp

lemma sublist_topic_created_html_link:
  "sublist (''https://hashscan.io/testnet/topic/'' @ i) (topic_created_html i)"
  unfolding topic_created_html_def sublist_def hashscanLink_def
  by (rule exI [of _ "''\<newline>        '' @ i @
        ''\<newline>        <br/><br/>\<newline>        <a href=\"''"]) simp

section \<open>The session invariant\<close>

lemma session_invariant_sync: "session_invariant (syncWalletconnectState account s)"
  by (simp add: session_invariant_def syncWalletconnectState_def render_account_def Let_def
      split: option.splits)

lemma session_invariant_segments:
  assumes "session_invariant s"
  shows "session_invariant (fst (pageLoad_start s))"
    "session_invariant (fst (pageLoad_afterInit r account s))"
    "session_invariant (fst (disconnectButton_click s))"
    "session_invariant (fst (openWalletConnectModal_start s))"
    "session_invariant (fst (openWalletConnectModal_afterInit r s))"
    "session_invariant (fst (openWalletConnectModal_afterModal r account s))"
    "session_invariant (fst (disconnectWallet_start s))"
    "session_invariant (fst (disconnectWallet_afterDisconnectAll r s))"
    "session_invariant (fst (handleTopicCreation_start r s))"
    "session_invariant (fst (handleTopicCreation_afterFreeze r s))"
    "session_invariant (fst (handleTopicCreation_afterExecute r s))"
    "session_invariant (fst (handleTopicCreation_afterReceipt rc s))"
    "session_invariant (fst (handleTopicMessageSubmission_start r s))"
    "session_invariant (fst (handleTopicMessageSubmission_afterFreeze r s))"
    "session_invariant (fst (handleTopicMessageSubmission_afterExecute r s))"
    "session_invariant (fst (handleTopicMessageSubmission_afterReceipt rc s))"
  using assms session_invariant_sync [of account s]
  by (simp_all add: session_invariant_def segment_defs effect_defs initializeWalletConnect_def
      Let_def split: sum.splits option.splits)

lemma then_resume_session_invariant:
  "session_invariant (fst r) \<Longrightarrow>
   (\<And>s1. session_invariant s1 \<Longrightarrow> session_invariant (fst (k s1))) \<Longrightarrow>
     session_invariant (fst (then_resume r k))"
  by (cases r, rename_tac s1 c, case_tac c) auto

lemma session_invariant_runs:
  assumes "session_invariant s"
  shows "session_invariant (fst (openWalletConnectModal init modal account s))"
    and "session_invariant (fst (disconnectWallet disconnected s))"
  unfolding run_defs
  by (intro then_resume_session_invariant session_invariant_segments assms | assumption)+

lemma session_invariant_step:
  "step ir c c' \<Longrightarrow> session_invariant (fst c) \<Longrightarrow> session_invariant (fst c')"
proof (induction rule: step.induct)
  case (input_typed s v ts)
  then show ?case by (simp add: session_invariant_def)
qed (simp_all add: session_invariant_segments)

lemma session_invariant_reachable: "reachable ir c \<Longrightarrow> session_invariant (fst c)"
proof (induction rule: reachable.induct)
  case (loaded d)
  show ?case by (simp add: session_invariant_def initial_state_def)
next
  case (stepped c c')
  then show ?case by (simp add: session_invariant_step)
qed

text \<open>
  Claim C1. \<open>isConnected\<close> is true if and only if \<open>accountId\<close> is a non-empty string:
  on the freshly loaded page, after every run of \<open>syncWalletconnectState\<close>, after every
  completed run of \<open>openWalletConnectModal\<close> and of \<open>disconnectWallet\<close> that starts where
  it holds, and in every configuration the page can reach, however the handlers
  interleave.
\<close>

theorem session_invariant_holds:
  "session_invariant (initial_state d) \<and>
   session_invariant (syncWalletconnectState account s) \<and>
   (session_invariant s \<longrightarrow>
      session_invariant (fst (openWalletConnectModal init modal account s)) \<and>
      session_invariant (fst (disconnectWallet disconnected s))) \<and>
   (reachable init_result c \<longrightarrow> session_invariant (fst c))"
  using session_invariant_sync session_invariant_reachable session_invariant_runs
  by (simp add: session_invariant_def initial_state_def)

theorem session_invariant_holds_witness:
  "reachable (\<lambda>p. Inr ()) (connected_state, []) \<and>
   isConnected connected_state \<and>
   accountId connected_state = ''0.0.5005'' \<and>
   session_invariant (fst (disconnectWallet (Inr ()) connected_state)) \<and>
   \<not> isConnected (fst (disconnectWallet (Inr ()) connected_state)) \<and>
   accountId (fst (disconnectWallet (Inr ()) connected_state)) = []"
  using
    session_invariant_holds
      [of page_with_all_elements None connected_state "Inr ()" "Inr ()" "Inr ()" "\<lambda>p. Inr ()"
          "(connected_state, [])"]
    reachable_after_pageLoad [of "Some ''0.0.5005''" page_with_all_elements]
  by (simp add: connected_state_def [symmetric])
     (simp add: session_invariant_def connected_state_eq disconnectWallet_def segment_defs
        effect_defs)

section \<open>Submitting a message: the receipt's status decides the branch\<close>

lemma sublist_message_submitted_html_wording:
  "sublist (''Message submitted to topic '' @ t @ '' successfully!'') (message_submitted_html t)"
  unfolding message_submitted_html_def sublist_def
  by (rule exI [of _ "''\<newline>        ''"]) simp

lemma sublist_message_submitted_html_anchor:
  "sublist (''<a href=\"https://hashscan.io/testnet/topic/'' @ t @ ''\"'')
     (message_submitted_html t)"
  unfolding message_submitted_html_def sublist_def hashscanLink_def
  by (rule exI [of _ "''\<newline>        Message submitted to topic '' @ t @
        '' successfully!'' @ ''\<newline>        <br/><br/>\<newline>        ''"]) simp

lemma sublist_message_submitted_html_link:
  "sublist (''https://hashscan.io/testnet/topic/'' @ t) (message_submitted_html t)"
  unfolding message_submitted_html_def sublist_def hashscanLink_def
  by (rule exI [of _ "''\<newline>        Message submitted to topic '' @ t @
        '' successfully!'' @ ''\<newline>        <br/><br/>\<newline>        <a href=\"''"]) simp

text \<open>
  Claim C2. Every submit-message run that reaches the receipt executes the segment after
  the receipt has arrived, in whatever state the page then is. That segment takes the
  success branch exactly when the text of the receipt's status is the literal SUCCESS: it
  then renders the text "Message submitted to topic ... successfully!" and a link whose
  target is https://hashscan.io/testnet/topic/ followed by the topic identifier. For
  every other status it takes the failure branch, whose text contains that status. An
  uninterrupted run that reaches the receipt leaves exactly that markup in the message
  status of a page that has the element.
\<close>

theorem submit_receipt_status_decides_branch:
  "handleTopicMessageSubmission_afterReceipt (Inr rc) s =
     (if status_toString (receipt_status rc) = Inr ''SUCCESS''
      then (render_message (message_submitted_html (topicId s)) s, Fulfilled)
      else (render_message (''Message submission failed: '' @ status_String (receipt_status rc)) s,
            Fulfilled))
   \<and> sublist (''Message submitted to topic '' @ topicId s @ '' successfully!'')
        (message_submitted_html (topicId s))
   \<and> sublist (''<a href=\"https://hashscan.io/testnet/topic/'' @ topicId s @ ''\"'')
        (message_submitted_html (topicId s))
   \<and> sublist (''https://hashscan.io/testnet/topic/'' @ topicId s)
        (message_submitted_html (topicId s))
   \<and> sublist (status_String (receipt_status rc))
        (''Message submission failed: '' @ status_String (receipt_status rc))
   \<and> (isConnected s0 \<and> topicId s0 \<noteq> [] \<and> messageInput (document s0) = Some m \<and> m \<noteq> [] \<and>
        messageStatus (document s0) \<noteq> None \<longrightarrow>
        messageStatus (document (fst (handleTopicMessageSubmission (Inr u) (Inr v) (Inr w)
          (Inr rc) s0))) =
          Some (if status_toString (receipt_status rc) = Inr ''SUCCESS''
                then message_submitted_html (topicId s0)
                else ''Message submission failed: '' @ status_String (receipt_status rc)) \<and>
        (status_toString (receipt_status rc) = Inr ''SUCCESS'' \<longrightarrow>
           shown_in (''https://hashscan.io/testnet/topic/'' @ topicId s0)
             (messageStatus (document (fst (handleTopicMessageSubmission (Inr u) (Inr v)
                (Inr w) (Inr rc) s0))))))"
proof -
  have run: "isConnected s0 \<and> topicId s0 \<noteq> [] \<and> messageInput (document s0) = Some m \<and> m \<noteq> [] \<and>
        messageStatus (document s0) \<noteq> None \<longrightarrow>
        messageStatus (document (fst (handleTopicMessageSubmission (Inr u) (Inr v) (Inr w)
          (Inr rc) s0))) =
          Some (if status_toString (receipt_status rc) = Inr ''SUCCESS''
                then message_submitted_html (topicId s0)
                else ''Message submission failed: '' @ status_String (receipt_status rc))"
    by (simp add: handleTopicMessageSubmission_reaches_receipt
        handleTopicMessageSubmission_afterReceipt_def status_is_success_iff invoke_def
        render_message_def updateMessageStatus_def)
  have run_link: "isConnected s0 \<and> topicId s0 \<noteq> [] \<and> messageInput (document s0) = Some m \<and>
        m \<noteq> [] \<and> messageStatus (document s0) \<noteq> None \<longrightarrow>
        status_toString (receipt_status rc) = Inr ''SUCCESS'' \<longrightarrow>
           shown_in (''https://hashscan.io/testnet/topic/'' @ topicId s0)
             (messageStatus (document (fst (handleTopicMessageSubmission (Inr u) (Inr v)
                (Inr w) (Inr rc) s0))))"
    using run sublist_message_submitted_html_link [of "topicId s0"]
    by (simp add: shown_in_def)
  have branch: "handleTopicMessageSubmission_afterReceipt (Inr rc) s =
     (if status_toString (receipt_status rc) = Inr ''SUCCESS''
      then (render_message (message_submitted_html (topicId s)) s, Fulfilled)
      else (render_message (''Message submission failed: '' @ status_String (receipt_status rc)) s,
            Fulfilled))"
    by (simp add: handleTopicMessageSubmission_afterReceipt_def status_is_success_iff)
  have status: "sublist (status_String (receipt_status rc))
        (''Message submission failed: '' @ status_String (receipt_status rc))"
    by (rule sublist_append_leftI)
  from run run_link have both: "isConnected s0 \<and> topicId s0 \<noteq> [] \<and>
        messageInput (document s0) = Some m \<and> m \<noteq> [] \<and>
        messageStatus (document s0) \<noteq> None \<longrightarrow>
        messageStatus (document (fst (handleTopicMessageSubmission (Inr u) (Inr v) (Inr w)
          (Inr rc) s0))) =
          Some (if status_toString (receipt_status rc) = Inr ''SUCCESS''
                then message_submitted_html (topicId s0)
                else ''Message submission failed: '' @ status_String (receipt_status rc)) \<and>
        (status_toString (receipt_status rc) = Inr ''SUCCESS'' \<longrightarrow>
           shown_in (''https://hashscan.io/testnet/topic/'' @ topicId s0)
             (messageStatus (document (fst (handleTopicMessageSubmission (Inr u) (Inr v)
                (Inr w) (Inr rc) s0)))))"
    by blast
  show ?thesis
    by (intro conjI branch sublist_message_submitted_html_wording
        sublist_message_submitted_html_anchor sublist_message_submitted_html_link status both)
qed

theorem submit_receipt_status_decides_branch_witness:
  "messageStatus (document (fst (handleTopicMessageSubmission_afterReceipt
          (Inr \<lparr>receipt_topicId = None, receipt_status = Status ''SUCCESS''\<rparr>)
          ready_to_submit_state)))
     = Some ''\<newline>        Message submitted to topic 0.0.1234 successfully!\<newline>        <br/><br/>\<newline>        <a href=\"https://hashscan.io/testnet/topic/0.0.1234\" target=\"_blank\" class=\"hashscan-link\">\<newline>          View on HashScan\<newline>        </a>\<newline>      ''
   \<and> messageStatus (document (fst (handleTopicMessageSubmission_afterReceipt
          (Inr \<lparr>receipt_topicId = None, receipt_status = Status ''INVALID_TOPIC_ID''\<rparr>)
          ready_to_submit_state)))
     = Some ''Message submission failed: INVALID_TOPIC_ID''
   \<and> messageStatus (document (fst (handleTopicMessageSubmission (Inr ()) (Inr ()) (Inr ())
          (Inr \<lparr>receipt_topicId = None, receipt_status = Status ''SUCCESS''\<rparr>)
          ready_to_submit_state)))
     = Some ''\<newline>        Message submitted to topic 0.0.1234 successfully!\<newline>        <br/><br/>\<newline>        <a href=\"https://hashscan.io/testnet/topic/0.0.1234\" target=\"_blank\" class=\"hashscan-link\">\<newline>          View on HashScan\<newline>        </a>\<newline>      ''
   \<and> shown_in ''https://hashscan.io/testnet/topic/0.0.1234''
       (messageStatus (document (fst (handleTopicMessageSubmission (Inr ()) (Inr ()) (Inr ())
          (Inr \<lparr>receipt_topicId = None, receipt_status = Status ''SUCCESS''\<rparr>)
          ready_to_submit_state))))
   \<and> messageStatus (document (fst (handleTopicMessageSubmission (Inr ()) (Inr ()) (Inr ())
          (Inr \<lparr>receipt_topicId = None, receipt_status = Status ''INVALID_TOPIC_ID''\<rparr>)
          ready_to_submit_state)))
     = Some ''Message submission failed: INVALID_TOPIC_ID''"
proof -
  have markup: "''\<newline>        Message submitted to topic 0.0.1234 successfully!\<newline>        <br/><br/>\<newline>        <a href=\"https://hashscan.io/testnet/topic/0.0.1234\" target=\"_blank\" class=\"hashscan-link\">\<newline>          View on HashScan\<newline>        </a>\<newline>      '' = message_submitted_html ''0.0.1234''"
    by (simp add: message_submitted_html_def hashscanLink_def)
  show ?thesis
    unfolding markup
    using
      submit_receipt_status_decides_branch
        [of "\<lparr>receipt_topicId = None, receipt_status = Status ''SUCCESS''\<rparr>"
            ready_to_submit_state ready_to_submit_state "''gm''" "()" "()" "()"]
      submit_receipt_status_decides_branch
        [of "\<lparr>receipt_topicId = None, receipt_status = Status ''INVALID_TOPIC_ID''\<rparr>"
            ready_to_submit_state ready_to_submit_state "''gm''" "()" "()" "()"]
    by (simp add: ready_to_submit_state_eq render_message_def updateMessageStatus_def
        shown_in_def)
qed

section \<open>Creating a topic: what the receipt yields\<close>

text \<open>
  Claim C3. Every create-topic run that reaches the receipt executes the segment after
  the receipt has arrived. When the receipt contains a topic identifier, \<open>topicId\<close>
  becomes that identifier's string form and the markup passed to the topic display (its
  content when the page has that element) contains the identifier and the link
  https://hashscan.io/testnet/topic/ followed by the identifier. When the receipt lacks a
  topic identifier, \<open>topicId\<close> is unchanged and the text "Topic creation failed (no
  topicId)" is rendered; in both cases the handler returns normally.
\<close>

theorem create_receipt_sets_topic:
  "handleTopicCreation_afterReceipt (Inr rc) s = (s', c) \<Longrightarrow>
   c = Fulfilled \<and>
   (case receipt_topicId rc of
      Some t \<Rightarrow>
        topicId s' = topic_id_toString t \<and>
        document s' =
          updateTopicIdDisplay (topic_created_html (topic_id_toString t)) (document s) \<and>
        (topicIdDisplay (document s) \<noteq> None \<longrightarrow>
           topicIdDisplay (document s') = Some (topic_created_html (topic_id_toString t))) \<and>
        sublist (topic_id_toString t) (topic_created_html (topic_id_toString t)) \<and>
        sublist (''https://hashscan.io/testnet/topic/'' @ topic_id_toString t)
          (topic_created_html (topic_id_toString t))
    | None \<Rightarrow>
        topicId s' = topicId s \<and>
        document s' = updateTopicIdDisplay ''Topic creation failed (no topicId)'' (document s) \<and>
        (topicIdDisplay (document s) \<noteq> None \<longrightarrow>
           topicIdDisplay (document s') = Some ''Topic creation failed (no topicId)'')) \<and>
   (isConnected s0 \<and> topicIdDisplay (document s0) \<noteq> None \<longrightarrow>
      snd (handleTopicCreation (Inr u) (Inr v) (Inr w) (Inr rc) s0) = Fulfilled \<and>
      (case receipt_topicId rc of
         Some t \<Rightarrow>
           topicId (fst (handleTopicCreation (Inr u) (Inr v) (Inr w) (Inr rc) s0)) =
             topic_id_toString t \<and>
           topicIdDisplay (document (fst (handleTopicCreation (Inr u) (Inr v) (Inr w) (Inr rc)
             s0))) = Some (topic_created_html (topic_id_toString t))
       | None \<Rightarrow>
           topicId (fst (handleTopicCreation (Inr u) (Inr v) (Inr w) (Inr rc) s0)) =
             topicId s0 \<and>
           topicIdDisplay (document (fst (handleTopicCreation (Inr u) (Inr v) (Inr w) (Inr rc)
             s0))) = Some ''Topic creation failed (no topicId)''))"
proof -
  assume seg: "handleTopicCreation_afterReceipt (Inr rc) s = (s', c)"
  have run: "isConnected s0 \<and> topicIdDisplay (document s0) \<noteq> None \<longrightarrow>
      snd (handleTopicCreation (Inr u) (Inr v) (Inr w) (Inr rc) s0) = Fulfilled \<and>
      (case receipt_topicId rc of
         Some t \<Rightarrow>
           topicId (fst (handleTopicCreation (Inr u) (Inr v) (Inr w) (Inr rc) s0)) =
             topic_id_toString t \<and>
           topicIdDisplay (document (fst (handleTopicCreation (Inr u) (Inr v) (Inr w) (Inr rc)
             s0))) = Some (topic_created_html (topic_id_toString t))
       | None \<Rightarrow>
           topicId (fst (handleTopicCreation (Inr u) (Inr v) (Inr w) (Inr rc) s0)) =
             topicId s0 \<and>
           topicIdDisplay (document (fst (handleTopicCreation (Inr u) (Inr v) (Inr w) (Inr rc)
             s0))) = Some ''Topic creation failed (no topicId)'')"
    by (simp add: handleTopicCreation_reaches_receipt handleTopicCreation_afterReceipt_def
        render_topic_def invoke_def updateTopicIdDisplay_def split: option.splits)
  show ?thesis
  proof (cases "receipt_topicId rc")
    case None
    with seg have "c = Fulfilled" "topicId s' = topicId s"
      "document s' = updateTopicIdDisplay ''Topic creation failed (no topicId)'' (document s)"
      by (auto simp add: handleTopicCreation_afterReceipt_def render_topic_def)
    moreover from this have "topicIdDisplay (document s) \<noteq> None \<longrightarrow>
           topicIdDisplay (document s') = Some ''Topic creation failed (no topicId)''"
      by (simp add: updateTopicIdDisplay_def)
    ultimately show ?thesis
      using None run by simp
  next
    case (Some t)
    with seg have "c = Fulfilled" "topicId s' = topic_id_toString t"
      "document s' =
         updateTopicIdDisplay (topic_created_html (topic_id_toString t)) (document s)"
      by (auto simp add: handleTopicCreation_afterReceipt_def render_topic_def)
    moreover from this have "topicIdDisplay (document s) \<noteq> None \<longrightarrow>
           topicIdDisplay (document s') = Some (topic_created_html (topic_id_toString t))"
      by (simp add: updateTopicIdDisplay_def)
    ultimately show ?thesis
      using Some run sublist_topic_created_html_id sublist_topic_created_html_link by simp
  qed
qed

theorem create_receipt_sets_topic_witness:
  "topicId (fst (handleTopicCreation_afterReceipt
       (Inr \<lparr>receipt_topicId = Some \<lparr>shard = 0, realm = 0, num = 1234\<rparr>,
             receipt_status = Status ''SUCCESS''\<rparr>) connected_state)) = ''0.0.1234''
   \<and> topicIdDisplay (document (fst (handleTopicCreation_afterReceipt
       (Inr \<lparr>receipt_topicId = Some \<lparr>shard = 0, realm = 0, num = 1234\<rparr>,
             receipt_status = Status ''SUCCESS''\<rparr>) connected_state)))
       = Some (topic_created_html ''0.0.1234'')
   \<and> sublist ''0.0.1234'' (topic_created_html ''0.0.1234'')
   \<and> sublist ''https://hashscan.io/testnet/topic/0.0.1234'' (topic_created_html ''0.0.1234'')
   \<and> topicId (fst (handleTopicCreation (Inr ()) (Inr ()) (Inr ())
       (Inr \<lparr>receipt_topicId = Some \<lparr>shard = 0, realm = 0, num = 1234\<rparr>,
             receipt_status = Status ''SUCCESS''\<rparr>) connected_state)) = ''0.0.1234''
   \<and> topicId (fst (handleTopicCreation (Inr ()) (Inr ()) (Inr ())
       (Inr \<lparr>receipt_topicId = None, receipt_status = Status ''SUCCESS''\<rparr>)
       topic_created_state)) = ''0.0.1234''
   \<and> topicIdDisplay (document (fst (handleTopicCreation (Inr ()) (Inr ()) (Inr ())
       (Inr \<lparr>receipt_topicId = None, receipt_status = Status ''SUCCESS''\<rparr>)
       topic_created_state))) = Some ''Topic creation failed (no topicId)''"
  using
    create_receipt_sets_topic [OF surjective_pairing,
        of "\<lparr>receipt_topicId = Some \<lparr>shard = 0, realm = 0, num = 1234\<rparr>,
             receipt_status = Status ''SUCCESS''\<rparr>" connected_state connected_state
           "()" "()" "()"]
    create_receipt_sets_topic [OF surjective_pairing,
        of "\<lparr>receipt_topicId = None, receipt_status = Status ''SUCCESS''\<rparr>"
           topic_created_state topic_created_state "()" "()" "()"]
  by (simp add: connected_state_eq topic_created_state_eq topic_id_toString_def decimal.simps
      updateTopicIdDisplay_def)

section \<open>A disconnect whose library call fails\<close>

text \<open>
  Claim C4, as the code has it. When \<open>disconnectWallet\<close> runs in the connected state and
  the library's \<open>disconnectAll\<close> throws, the error is caught and the handler returns
  normally, but the local state is not cleared: \<open>isConnected\<close> stays true, \<open>accountId\<close>
  and the page keep their values (the clearing statements of lines 92-94 follow the
  \<^verbatim>\<open>await\<close> inside the \<^verbatim>\<open>try\<close> block). The state is cleared, and "No account
  connected" displayed, when \<open>disconnectAll\<close> resolves.
\<close>

theorem disconnect_failure_keeps_session:
  "isConnected s \<Longrightarrow>
     disconnectWallet (Inl e) s = (invoke DisconnectAll s, Fulfilled) \<and>
     disconnectWallet_afterDisconnectAll (Inl e) s = (s, Fulfilled) \<and>
     isConnected (invoke DisconnectAll s) \<and>
     accountId (invoke DisconnectAll s) = accountId s \<and>
     document (invoke DisconnectAll s) = document s \<and>
     \<not> isConnected (fst (disconnectWallet (Inr ()) s)) \<and>
     accountId (fst (disconnectWallet (Inr ()) s)) = [] \<and>
     document (fst (disconnectWallet (Inr ()) s)) =
       updateAccountIdDisplay ''No account connected'' (document s)"
  by (simp add: disconnectWallet_def segment_defs effect_defs)

theorem disconnect_failure_keeps_session_witness:
  "disconnectWallet (Inl (Error ''No active session'')) connected_state =
     (invoke DisconnectAll connected_state, Fulfilled) \<and>
   isConnected (invoke DisconnectAll connected_state) \<and>
   accountId (invoke DisconnectAll connected_state) = ''0.0.5005'' \<and>
   accountIdElement (document (fst (disconnectWallet (Inr ()) connected_state))) =
     Some ''No account connected''"
  using disconnect_failure_keeps_session [of connected_state "Error ''No active session''"]
  by (simp add: connected_state_eq updateAccountIdDisplay_def)

text \<open>
  The claim as the spec states it (the state is cleared although \<open>disconnectAll\<close> threw)
  fails on the connected page: after the failed disconnect the page is still connected as
  0.0.5005 and still displays that account.
\<close>

theorem disconnect_failure_counterexample:
  "isConnected connected_state \<and>
   isConnected (fst (disconnectWallet (Inl (Error ''No active session'')) connected_state)) \<and>
   accountId (fst (disconnectWallet (Inl (Error ''No active session'')) connected_state)) =
     ''0.0.5005'' \<and>
   accountIdElement
     (document (fst (disconnectWallet (Inl (Error ''No active session'')) connected_state))) =
     Some ''0.0.5005''"
  by (simp add: connected_state_eq disconnectWallet_def segment_defs effect_defs)

section \<open>Thrown errors\<close>

lemma then_resume_Fulfilled:
  "not_rejected (snd r) \<Longrightarrow> (\<And>s1. snd (k s1) = Fulfilled) \<Longrightarrow>
     snd (then_resume r k) = Fulfilled"
  by (cases r, rename_tac s1 c, case_tac c) auto

lemma then_resume_not_rejected:
  "not_rejected (snd r) \<Longrightarrow> (\<And>s1. not_rejected (snd (k s1))) \<Longrightarrow>
     not_rejected (snd (then_resume r k))"
  by (cases r, rename_tac s1 c, case_tac c) auto

lemma session_segments_not_rejected:
  "not_rejected (snd (disconnectButton_click s))"
  "not_rejected (snd (openWalletConnectModal_start s))"
  "not_rejected (snd (openWalletConnectModal_afterInit r s))"
  "not_rejected (snd (disconnectWallet_start s))"
  by (simp_all add: segment_defs Let_def initializeWalletConnect_def
      split: sum.splits option.splits prod.splits)

lemma session_last_segments_Fulfilled:
  "snd (openWalletConnectModal_afterModal r account s) = Fulfilled"
  "snd (disconnectWallet_afterDisconnectAll r s) = Fulfilled"
  by (simp_all add: segment_defs split: sum.splits)

lemma session_runs_Fulfilled:
  "snd (openWalletConnectModal init modal account s) = Fulfilled"
  "snd (disconnectWallet disconnected s) = Fulfilled"
  unfolding run_defs
  by (intro then_resume_Fulfilled then_resume_not_rejected session_segments_not_rejected
      session_last_segments_Fulfilled)+

lemma topic_catch_Fulfilled:
  assumes "message_readable (Inl e)"
  shows "snd (handleTopicCreation_catch e s) = Fulfilled"
    and "snd (handleTopicMessageSubmission_catch e s) = Fulfilled"
  using assms
  by (cases "error_message e";
      simp add: message_readable_def handleTopicCreation_catch_def
        handleTopicMessageSubmission_catch_def)+

lemma topic_segments_not_rejected:
  assumes "message_readable r"
  shows "not_rejected (snd (handleTopicCreation_start r s))"
    "not_rejected (snd (handleTopicCreation_afterFreeze r s))"
    "not_rejected (snd (handleTopicCreation_afterExecute r s))"
    "not_rejected (snd (handleTopicMessageSubmission_start r s))"
    "not_rejected (snd (handleTopicMessageSubmission_afterFreeze r s))"
    "not_rejected (snd (handleTopicMessageSubmission_afterExecute r s))"
  using assms
  by (cases r;
      simp add: segment_defs Let_def topic_catch_Fulfilled split: option.splits)+

lemma topic_last_segments_Fulfilled:
  assumes "message_readable rc"
  shows "snd (handleTopicCreation_afterReceipt rc s) = Fulfilled"
    "snd (handleTopicMessageSubmission_afterReceipt rc s) = Fulfilled"
  using assms
  by (cases rc;
      simp add: segment_defs Let_def topic_catch_Fulfilled status_is_success_iff
        split: option.splits)+

lemma topic_runs_Fulfilled:
  assumes "message_readable build" "message_readable frozen" "message_readable executed"
    "message_readable rc"
  shows "snd (handleTopicCreation build frozen executed rc s) = Fulfilled"
    and "snd (handleTopicMessageSubmission build frozen executed rc s) = Fulfilled"
  unfolding run_defs
  by (intro then_resume_Fulfilled then_resume_not_rejected topic_segments_not_rejected
      topic_last_segments_Fulfilled assms)+

text \<open>
  What the catch blocks of the two topic handlers do with \<^verbatim>\<open>null\<close>: reading its
  \<^verbatim>\<open>message\<close> throws, nothing is rendered and the handler is rejected.
\<close>

lemma null_leaves_topic_catch:
  "handleTopicCreation_afterFreeze (Inl ThrownNull) s =
     (s, Rejected (Error ''Cannot read properties of null (reading 'message')''))"
  "handleTopicMessageSubmission_afterFreeze (Inl ThrownNull) s =
     (s, Rejected (Error ''Cannot read properties of null (reading 'message')''))"
  by (simp_all add: segment_defs effect_defs)

text \<open>
  Claim C5, as the code has it. Let a value be thrown during create-topic or
  submit-message, at whichever library call, whose \<^verbatim>\<open>message\<close> can be read and prints as
  \<open>m\<close> (any thrown value but \<^verbatim>\<open>null\<close> and \<^verbatim>\<open>undefined\<close>; for an Error \<open>m\<close> is its
  message text). It is caught, and "Topic creation error: " or "Message submit error: "
  followed by \<open>m\<close> is passed to the status area of that flow (and is that element's
  content when the page has it); the handler returns normally, and so does every run in
  which every thrown value is of that kind. Whatever is thrown during connect or
  disconnect is caught as well, but nothing is rendered: the segment returns with the
  state and the page as they were. No run of \<open>openWalletConnectModal\<close> or of
  \<open>disconnectWallet\<close> is rejected, nor is the click listener of their button.
\<close>

theorem thrown_errors_are_caught:
  "(error_message e = Inr m \<longrightarrow>
      (isConnected s \<longrightarrow>
         handleTopicCreation_start (Inl e) s =
           (render_topic (''Topic creation error: '' @ m)
              (invoke (BuildTopicCreate ''Hello from Vanilla JS!'') s), Fulfilled)) \<and>
      handleTopicCreation_afterFreeze (Inl e) s =
        (render_topic (''Topic creation error: '' @ m) s, Fulfilled) \<and>
      handleTopicCreation_afterExecute (Inl e) s =
        (render_topic (''Topic creation error: '' @ m) s, Fulfilled) \<and>
      handleTopicCreation_afterReceipt (Inl e) s =
        (render_topic (''Topic creation error: '' @ m) s, Fulfilled) \<and>
      (topicIdDisplay (document s) \<noteq> None \<longrightarrow>
         topicIdDisplay (document (render_topic (''Topic creation error: '' @ m) s)) =
           Some (''Topic creation error: '' @ m) \<and>
         shown_in m
           (topicIdDisplay (document (render_topic (''Topic creation error: '' @ m) s)))) \<and>
      (isConnected s \<and> topicId s \<noteq> [] \<and> messageInput (document s) = Some msg \<and> msg \<noteq> [] \<longrightarrow>
         handleTopicMessageSubmission_start (Inl e) s =
           (render_message (''Message submit error: '' @ m)
              (invoke (BuildTopicMessageSubmit (topicId s) msg) s), Fulfilled)) \<and>
      handleTopicMessageSubmission_afterFreeze (Inl e) s =
        (render_message (''Message submit error: '' @ m) s, Fulfilled) \<and>
      handleTopicMessageSubmission_afterExecute (Inl e) s =
        (render_message (''Message submit error: '' @ m) s, Fulfilled) \<and>
      handleTopicMessageSubmission_afterReceipt (Inl e) s =
        (render_message (''Message submit error: '' @ m) s, Fulfilled) \<and>
      (messageStatus (document s) \<noteq> None \<longrightarrow>
         messageStatus (document (render_message (''Message submit error: '' @ m) s)) =
           Some (''Message submit error: '' @ m) \<and>
         shown_in m
           (messageStatus (document (render_message (''Message submit error: '' @ m) s))))) \<and>
   (message_readable build \<and> message_readable frozen \<and> message_readable executed \<and>
    message_readable rc \<longrightarrow>
      snd (handleTopicCreation build frozen executed rc s) = Fulfilled \<and>
      snd (handleTopicMessageSubmission build frozen executed rc s) = Fulfilled) \<and>
   openWalletConnectModal_afterInit (Inl e) s = (s, Fulfilled) \<and>
   openWalletConnectModal_afterModal (Inl e) account s = (s, Fulfilled) \<and>
   disconnectWallet_afterDisconnectAll (Inl e) s = (s, Fulfilled) \<and>
   snd (openWalletConnectModal init modal account s) = Fulfilled \<and>
   snd (disconnectWallet disconnected s) = Fulfilled \<and>
   not_rejected (snd (disconnectButton_click s))"
proof -
  have shown: "sublist m (''Topic creation error: '' @ m)"
    "sublist m (''Message submit error: '' @ m)"
    by (rule sublist_append_leftI)+
  have create: "topicIdDisplay (document s) \<noteq> None \<longrightarrow>
         topicIdDisplay (document (render_topic (''Topic creation error: '' @ m) s)) =
           Some (''Topic creation error: '' @ m) \<and>
         shown_in m
           (topicIdDisplay (document (render_topic (''Topic creation error: '' @ m) s)))"
    using shown(1) by (simp add: shown_in_def render_topic_def updateTopicIdDisplay_def)
  have submit: "messageStatus (document s) \<noteq> None \<longrightarrow>
         messageStatus (document (render_message (''Message submit error: '' @ m) s)) =
           Some (''Message submit error: '' @ m) \<and>
         shown_in m
           (messageStatus (document (render_message (''Message submit error: '' @ m) s)))"
    using shown(2) by (simp add: shown_in_def render_message_def updateMessageStatus_def)
  have topic_segs:
    "isConnected s \<longrightarrow>
       handleTopicCreation_start (Inl e) s =
         (render_topic (''Topic creation error: '' @ m)
            (invoke (BuildTopicCreate ''Hello from Vanilla JS!'') s), Fulfilled)"
    "handleTopicCreation_afterFreeze (Inl e) s =
       (render_topic (''Topic creation error: '' @ m) s, Fulfilled)"
    "handleTopicCreation_afterExecute (Inl e) s =
       (render_topic (''Topic creation error: '' @ m) s, Fulfilled)"
    "handleTopicCreation_afterReceipt (Inl e) s =
       (render_topic (''Topic creation error: '' @ m) s, Fulfilled)"
    "isConnected s \<and> topicId s \<noteq> [] \<and> messageInput (document s) = Some msg \<and> msg \<noteq> [] \<longrightarrow>
       handleTopicMessageSubmission_start (Inl e) s =
         (render_message (''Message submit error: '' @ m)
            (invoke (BuildTopicMessageSubmit (topicId s) msg) s), Fulfilled)"
    "handleTopicMessageSubmission_afterFreeze (Inl e) s =
       (render_message (''Message submit error: '' @ m) s, Fulfilled)"
    "handleTopicMessageSubmission_afterExecute (Inl e) s =
       (render_message (''Message submit error: '' @ m) s, Fulfilled)"
    "handleTopicMessageSubmission_afterReceipt (Inl e) s =
       (render_message (''Message submit error: '' @ m) s, Fulfilled)"
    if "error_message e = Inr m"
    using that
    by (simp_all add: segment_defs handleTopicCreation_catch_def
        handleTopicMessageSubmission_catch_def)
  have session_segs:
    "openWalletConnectModal_afterInit (Inl e) s = (s, Fulfilled)"
    "openWalletConnectModal_afterModal (Inl e) account s = (s, Fulfilled)"
    "disconnectWallet_afterDisconnectAll (Inl e) s = (s, Fulfilled)"
    by (simp_all add: segment_defs)
  have topic_runs: "message_readable build \<and> message_readable frozen \<and>
      message_readable executed \<and> message_readable rc \<longrightarrow>
      snd (handleTopicCreation build frozen executed rc s) = Fulfilled \<and>
      snd (handleTopicMessageSubmission build frozen executed rc s) = Fulfilled"
    by (simp add: topic_runs_Fulfilled)
  have topic: "error_message e = Inr m \<longrightarrow>
      (isConnected s \<longrightarrow>
         handleTopicCreation_start (Inl e) s =
           (render_topic (''Topic creation error: '' @ m)
              (invoke (BuildTopicCreate ''Hello from Vanilla JS!'') s), Fulfilled)) \<and>
      handleTopicCreation_afterFreeze (Inl e) s =
        (render_topic (''Topic creation error: '' @ m) s, Fulfilled) \<and>
      handleTopicCreation_afterExecute (Inl e) s =
        (render_topic (''Topic creation error: '' @ m) s, Fulfilled) \<and>
      handleTopicCreation_afterReceipt (Inl e) s =
        (render_topic (''Topic creation error: '' @ m) s, Fulfilled) \<and>
      (topicIdDisplay (document s) \<noteq> None \<longrightarrow>
         topicIdDisplay (document (render_topic (''Topic creation error: '' @ m) s)) =
           Some (''Topic creation error: '' @ m) \<and>
         shown_in m
           (topicIdDisplay (document (render_topic (''Topic creation error: '' @ m) s)))) \<and>
      (isConnected s \<and> topicId s \<noteq> [] \<and> messageInput (document s) = Some msg \<and> msg \<noteq> [] \<longrightarrow>
         handleTopicMessageSubmission_start (Inl e) s =
           (render_message (''Message submit error: '' @ m)
              (invoke (BuildTopicMessageSubmit (topicId s) msg) s), Fulfilled)) \<and>
      handleTopicMessageSubmission_afterFreeze (Inl e) s =
        (render_message (''Message submit error: '' @ m) s, Fulfilled) \<and>
      handleTopicMessageSubmission_afterExecute (Inl e) s =
        (render_message (''Message submit error: '' @ m) s, Fulfilled) \<and>
      handleTopicMessageSubmission_afterReceipt (Inl e) s =
        (render_message (''Message submit error: '' @ m) s, Fulfilled) \<and>
      (messageStatus (document s) \<noteq> None \<longrightarrow>
         messageStatus (document (render_message (''Message submit error: '' @ m) s)) =
           Some (''Message submit error: '' @ m) \<and>
         shown_in m
           (messageStatus (document (render_message (''Message submit error: '' @ m) s))))"
  proof (rule impI)
    assume readable: "error_message e = Inr m"
    show "(isConnected s \<longrightarrow>
         handleTopicCreation_start (Inl e) s =
           (render_topic (''Topic creation error: '' @ m)
              (invoke (BuildTopicCreate ''Hello from Vanilla JS!'') s), Fulfilled)) \<and>
      handleTopicCreation_afterFreeze (Inl e) s =
        (render_topic (''Topic creation error: '' @ m) s, Fulfilled) \<and>
      handleTopicCreation_afterExecute (Inl e) s =
        (render_topic (''Topic creation error: '' @ m) s, Fulfilled) \<and>
      handleTopicCreation_afterReceipt (Inl e) s =
        (render_topic (''Topic creation error: '' @ m) s, Fulfilled) \<and>
      (topicIdDisplay (document s) \<noteq> None \<longrightarrow>
         topicIdDisplay (document (render_topic (''Topic creation error: '' @ m) s)) =
           Some (''Topic creation error: '' @ m) \<and>
         shown_in m
           (topicIdDisplay (document (render_topic (''Topic creation error: '' @ m) s)))) \<and>
      (isConnected s \<and> topicId s \<noteq> [] \<and> messageInput (document s) = Some msg \<and> msg \<noteq> [] \<longrightarrow>
         handleTopicMessageSubmission_start (Inl e) s =
           (render_message (''Message submit error: '' @ m)
              (invoke (BuildTopicMessageSubmit (topicId s) msg) s), Fulfilled)) \<and>
      handleTopicMessageSubmission_afterFreeze (Inl e) s =
        (render_message (''Message submit error: '' @ m) s, Fulfilled) \<and>
      handleTopicMessageSubmission_afterExecute (Inl e) s =
        (render_message (''Message submit error: '' @ m) s, Fulfilled) \<and>
      handleTopicMessageSubmission_afterReceipt (Inl e) s =
        (render_message (''Message submit error: '' @ m) s, Fulfilled) \<and>
      (messageStatus (document s) \<noteq> None \<longrightarrow>
         messageStatus (document (render_message (''Message submit error: '' @ m) s)) =
           Some (''Message submit error: '' @ m) \<and>
         shown_in m
           (messageStatus (document (render_message (''Message submit error: '' @ m) s))))"
      by (intro conjI topic_segs [OF readable] create submit)
  qed
  show ?thesis
    by (intro conjI topic topic_runs session_segs session_runs_Fulfilled
        session_segments_not_rejected(1))
qed

theorem thrown_errors_are_caught_witness:
  "handleTopicCreation_start (Inl (Error ''INSUFFICIENT_PAYER_BALANCE'')) ready_to_submit_state =
     (render_topic ''Topic creation error: INSUFFICIENT_PAYER_BALANCE''
        (invoke (BuildTopicCreate ''Hello from Vanilla JS!'') ready_to_submit_state), Fulfilled) \<and>
   topicIdDisplay (document (render_topic ''Topic creation error: INSUFFICIENT_PAYER_BALANCE''
       ready_to_submit_state)) = Some ''Topic creation error: INSUFFICIENT_PAYER_BALANCE'' \<and>
   shown_in ''INSUFFICIENT_PAYER_BALANCE''
     (topicIdDisplay (document (render_topic ''Topic creation error: INSUFFICIENT_PAYER_BALANCE''
        ready_to_submit_state))) \<and>
   handleTopicMessageSubmission_start (Inl (Error ''INSUFFICIENT_PAYER_BALANCE''))
       ready_to_submit_state =
     (render_message ''Message submit error: INSUFFICIENT_PAYER_BALANCE''
        (invoke (BuildTopicMessageSubmit ''0.0.1234'' ''gm'') ready_to_submit_state),
      Fulfilled) \<and>
   shown_in ''INSUFFICIENT_PAYER_BALANCE''
     (messageStatus (document (render_message
        ''Message submit error: INSUFFICIENT_PAYER_BALANCE'' ready_to_submit_state))) \<and>
   snd (handleTopicCreation (Inr ()) (Inl (Error ''INSUFFICIENT_PAYER_BALANCE'')) (Inr ())
          (Inl ThrownValue) ready_to_submit_state) = Fulfilled \<and>
   snd (handleTopicMessageSubmission (Inr ()) (Inl (Error ''INSUFFICIENT_PAYER_BALANCE''))
          (Inr ()) (Inl ThrownValue) ready_to_submit_state) = Fulfilled"
proof -
  have "sublist ''INSUFFICIENT_PAYER_BALANCE''
          ''Topic creation error: INSUFFICIENT_PAYER_BALANCE''"
    "sublist ''INSUFFICIENT_PAYER_BALANCE''
          ''Message submit error: INSUFFICIENT_PAYER_BALANCE''"
    by code_simp+
  with thrown_errors_are_caught
    [where e = "Error ''INSUFFICIENT_PAYER_BALANCE''" and m = "''INSUFFICIENT_PAYER_BALANCE''"
       and s = ready_to_submit_state and msg = "''gm''" and build = "Inr ()"
       and frozen = "Inl (Error ''INSUFFICIENT_PAYER_BALANCE'')" and executed = "Inr ()"
       and rc = "Inl ThrownValue" and account = None and init = "Inr ()"
       and modal = "Inr ()" and disconnected = "Inr ()"]
  show ?thesis
    by (simp add: ready_to_submit_state_eq message_readable_def shown_in_def)
qed

text \<open>
  The claim as the spec states it (every thrown error is rendered into the relevant status
  area) fails for the connect flow: when the wallet modal rejects on the loaded,
  disconnected page, the page is left exactly as it was and shows the error's message
  nowhere.
\<close>

theorem connect_error_not_rendered_counterexample:
  "document (fst (openWalletConnectModal (Inr ()) (Inl (Error ''Proposal expired'')) None
       disconnected_state)) = document disconnected_state \<and>
   \<not> shown_on_page ''Proposal expired''
       (document (fst (openWalletConnectModal (Inr ()) (Inl (Error ''Proposal expired'')) None
          disconnected_state)))"
proof -
  have "\<not> sublist ''Proposal expired'' ''No account connected''"
    "\<not> sublist ''Proposal expired'' ''Connect to WalletConnect''"
    by code_simp+
  then show ?thesis
    by (simp add: disconnected_state_eq openWalletConnectModal_def segment_defs effect_defs
        initializeWalletConnect_def shown_on_page_def shown_in_def)
qed

section \<open>Creating a topic without a wallet\<close>

text \<open>
  Claim C6. When create-topic is invoked while \<open>isConnected\<close> is false, the handler
  returns in its first segment: the trace of library calls is unchanged (no transaction
  is built, frozen, executed or receipt-fetched), the prompt "Connect a wallet first!" is
  passed to the topic display (and is its content when the page has that element), and
  \<open>topicId\<close> is unchanged.
\<close>

theorem create_topic_requires_connection:
  "\<not> isConnected s \<Longrightarrow>
     handleTopicCreation_start build s = (render_topic ''Connect a wallet first!'' s, Fulfilled) \<and>
     handleTopicCreation build frozen executed rc s =
       (render_topic ''Connect a wallet first!'' s, Fulfilled) \<and>
     calls (render_topic ''Connect a wallet first!'' s) = calls s \<and>
     topicId (render_topic ''Connect a wallet first!'' s) = topicId s \<and>
     (topicIdDisplay (document s) \<noteq> None \<longrightarrow>
        topicIdDisplay (document (render_topic ''Connect a wallet first!'' s)) =
          Some ''Connect a wallet first!'')"
  by (simp add: handleTopicCreation_def handleTopicCreation_start_def render_topic_def
      updateTopicIdDisplay_def)

theorem create_topic_requires_connection_witness:
  "handleTopicCreation (Inr ()) (Inr ()) (Inr ())
       (Inr \<lparr>receipt_topicId = Some \<lparr>shard = 0, realm = 0, num = 1234\<rparr>,
             receipt_status = Status ''SUCCESS''\<rparr>) disconnected_state
     = (render_topic ''Connect a wallet first!'' disconnected_state, Fulfilled)
   \<and> calls (render_topic ''Connect a wallet first!'' disconnected_state) = [Init]
   \<and> topicId (render_topic ''Connect a wallet first!'' disconnected_state) = []
   \<and> topicIdDisplay (document (render_topic ''Connect a wallet first!'' disconnected_state))
       = Some ''Connect a wallet first!''"
  using create_topic_requires_connection
    [of disconnected_state "Inr ()" "Inr ()" "Inr ()"
        "Inr \<lparr>receipt_topicId = Some \<lparr>shard = 0, realm = 0, num = 1234\<rparr>,
              receipt_status = Status ''SUCCESS''\<rparr>"]
  by (simp add: disconnected_state_eq)

section \<open>The topic is never cleared\<close>

lemma topic_kept_segments:
  assumes "topicId s \<noteq> []"
  shows "topicId (fst (pageLoad_start s)) \<noteq> []"
    "topicId (fst (pageLoad_afterInit r account s)) \<noteq> []"
    "topicId (fst (disconnectButton_click s)) \<noteq> []"
    "topicId (fst (openWalletConnectModal_afterInit r s)) \<noteq> []"
    "topicId (fst (openWalletConnectModal_afterModal r account s)) \<noteq> []"
    "topicId (fst (disconnectWallet_afterDisconnectAll r s)) \<noteq> []"
    "topicId (fst (handleTopicCreation_start r s)) \<noteq> []"
    "topicId (fst (handleTopicCreation_afterFreeze r s)) \<noteq> []"
    "topicId (fst (handleTopicCreation_afterExecute r s)) \<noteq> []"
    "topicId (fst (handleTopicCreation_afterReceipt rc s)) \<noteq> []"
    "topicId (fst (handleTopicMessageSubmission_start r s)) \<noteq> []"
    "topicId (fst (handleTopicMessageSubmission_afterFreeze r s)) \<noteq> []"
    "topicId (fst (handleTopicMessageSubmission_afterExecute r s)) \<noteq> []"
    "topicId (fst (handleTopicMessageSubmission_afterReceipt rc s)) \<noteq> []"
  using assms
  by (simp_all add: segment_defs effect_defs initializeWalletConnect_def
      syncWalletconnectState_def topic_id_toString_nonempty Let_def
      split: sum.splits option.splits)

lemma topic_kept_step:
  "step ir c c' \<Longrightarrow> topicId (fst c) \<noteq> [] \<Longrightarrow> topicId (fst c') \<noteq> []"
proof (induction rule: step.induct)
  case (DOMContentLoaded d)
  then show ?case by (simp add: initial_state_def)
qed (simp_all add: topic_kept_segments)

text \<open>
  Claim C7. Once \<open>topicId\<close> holds a non-empty value it stays non-empty: along every
  sequence of steps of the page, whatever the handlers run and however they interleave,
  a configuration with a topic is never followed by one without.
\<close>

theorem topic_never_cleared:
  "(step init_result)\<^sup>*\<^sup>* c c' \<Longrightarrow> topicId (fst c) \<noteq> [] \<Longrightarrow> topicId (fst c') \<noteq> []"
  by (induction rule: rtranclp_induct) (simp_all add: topic_kept_step)

theorem topic_never_cleared_witness:
  "(step (\<lambda>p. Inr ()))\<^sup>*\<^sup>* (topic_created_state, [])
      (settle (disconnectWallet_afterDisconnectAll (Inr ())
                 (fst (disconnectButton_click topic_created_state))) []) \<and>
   topicId topic_created_state = ''0.0.1234'' \<and>
   accountId (fst (settle (disconnectWallet_afterDisconnectAll (Inr ())
                 (fst (disconnectButton_click topic_created_state))) [])) = [] \<and>
   topicId (fst (settle (disconnectWallet_afterDisconnectAll (Inr ())
                 (fst (disconnectButton_click topic_created_state))) [])) \<noteq> []"
proof -
  let ?ir = "\<lambda>p::nat. Inr () :: unit outcome"
  let ?s1 = "fst (disconnectButton_click topic_created_state)"
  have "step ?ir (topic_created_state, []) (settle (disconnectButton_click topic_created_state) [])"
    by (rule step.click_disconnectButton) (simp_all add: topic_created_state_eq)
  then have clicked: "step ?ir (topic_created_state, []) (?s1, [Disconnect_awaits_disconnectAll])"
    by (simp add: topic_created_state_eq disconnectButton_click_def disconnectWallet_start_def)
  have "step ?ir (?s1, [Disconnect_awaits_disconnectAll])
     (settle (disconnectWallet_afterDisconnectAll (Inr ()) ?s1)
        (remove1 Disconnect_awaits_disconnectAll [Disconnect_awaits_disconnectAll]))"
    by (rule step.resume_disconnect) simp
  then have resumed: "step ?ir (?s1, [Disconnect_awaits_disconnectAll])
     (settle (disconnectWallet_afterDisconnectAll (Inr ()) ?s1) [])"
    by simp
  from clicked resumed have path: "(step ?ir)\<^sup>*\<^sup>* (topic_created_state, [])
      (settle (disconnectWallet_afterDisconnectAll (Inr ()) ?s1) [])"
    by (meson rtranclp.rtrancl_into_rtrancl r_into_rtranclp)
  from topic_never_cleared [OF path] path show ?thesis
    by (simp add: topic_created_state_eq disconnectButton_click_def disconnectWallet_start_def
        disconnectWallet_afterDisconnectAll_def effect_defs)
qed

section \<open>The wallet-session client is initialised at most once\<close>

lemma init_invariant_settle:
  assumes "count_list (calls (fst r)) Init =
             (if walletConnectInitPromise (fst r) = None then 0 else 1)"
    and "list_all (awaits_stored_promise (fst r)) ts"
    and "\<And>t. snd r = Await t \<Longrightarrow> awaits_stored_promise (fst r) t"
  shows "init_invariant (settle r ts)"
  using assms by (cases r, rename_tac s c, case_tac c) (simp_all add: init_invariant_def)

lemma awaits_stored_promise_cong:
  "walletConnectInitPromise s' = walletConnectInitPromise s \<Longrightarrow>
     awaits_stored_promise s' = awaits_stored_promise s"
  by (rule ext) (simp add: awaits_stored_promise_def split: option.splits)

lemma init_untouched_segments:
  "init_untouched s (pageLoad_afterInit r account s)"
  "init_untouched s (openWalletConnectModal_afterInit r s)"
  "init_untouched s (openWalletConnectModal_afterModal r account s)"
  "init_untouched s (disconnectWallet_start s)"
  "init_untouched s (disconnectWallet_afterDisconnectAll r s)"
  "init_untouched s (handleTopicCreation_start r s)"
  "init_untouched s (handleTopicCreation_afterFreeze r s)"
  "init_untouched s (handleTopicCreation_afterExecute r s)"
  "init_untouched s (handleTopicCreation_afterReceipt rc s)"
  "init_untouched s (handleTopicMessageSubmission_start r s)"
  "init_untouched s (handleTopicMessageSubmission_afterFreeze r s)"
  "init_untouched s (handleTopicMessageSubmission_afterExecute r s)"
  "init_untouched s (handleTopicMessageSubmission_afterReceipt rc s)"
  by (simp_all add: init_untouched_def segment_defs effect_defs syncWalletconnectState_def
      Let_def split: sum.splits option.splits)

lemma init_invariant_untouched:
  assumes "init_invariant (s, ts)" and "init_untouched s r" and "set ts' \<subseteq> set ts"
  shows "init_invariant (settle r ts')"
proof (rule init_invariant_settle)
  from assms(2) have p: "walletConnectInitPromise (fst r) = walletConnectInitPromise s"
    and n: "count_list (calls (fst r)) Init = count_list (calls s) Init"
    by (simp_all add: init_untouched_def)
  from assms(1) p n
  show "count_list (calls (fst r)) Init =
          (if walletConnectInitPromise (fst r) = None then 0 else 1)"
    by (simp add: init_invariant_def)
  from assms(1) have "list_all (awaits_stored_promise s) ts"
    by (simp add: init_invariant_def)
  with assms(3) have "list_all (awaits_stored_promise s) ts'"
    by (auto simp add: list_all_iff)
  then show "list_all (awaits_stored_promise (fst r)) ts'"
    by (simp only: awaits_stored_promise_cong [OF p])
  fix t assume "snd r = Await t"
  with assms(2) show "awaits_stored_promise (fst r) t"
    by (simp add: init_untouched_def awaits_stored_promise_def)
qed

lemma init_invariant_initialize:
  assumes "init_invariant (s, ts)"
  shows "init_invariant (fst (initializeWalletConnect s), ts)"
    and "walletConnectInitPromise (fst (initializeWalletConnect s)) =
           Some (snd (initializeWalletConnect s))"
  using assms
  by (auto simp add: init_invariant_def initializeWalletConnect_def invoke_def Let_def
      list_all_iff awaits_stored_promise_def split: option.splits)

lemma init_invariant_starts:
  assumes "init_invariant (s, ts)"
  shows "init_invariant (settle (pageLoad_start s) ts)"
    and "init_invariant (settle (openWalletConnectModal_start s) ts)"
  using init_invariant_initialize [OF assms]
  by (simp_all add: pageLoad_start_def openWalletConnectModal_start_def init_invariant_def
      awaits_stored_promise_def case_prod_beta)

lemma init_invariant_resume:
  "init_invariant (s, ts) \<Longrightarrow> init_untouched s r \<Longrightarrow>
     init_invariant (settle r (remove1 t ts))"
  by (erule init_invariant_untouched) (simp_all add: set_remove1_subset)

lemma init_invariant_click:
  "init_invariant (s, ts) \<Longrightarrow> init_untouched s r \<Longrightarrow> init_invariant (settle r ts)"
  by (erule init_invariant_untouched) simp_all

lemma init_invariant_typed:
  "init_invariant (s, ts) \<Longrightarrow>
     init_invariant (s\<lparr>document := (document s)\<lparr>messageInput := Some v\<rparr>\<rparr>, ts)"
  by (simp add: init_invariant_def
      awaits_stored_promise_cong [of "s\<lparr>document := (document s)\<lparr>messageInput := Some v\<rparr>\<rparr>" s])

lemma init_invariant_step:
  "step ir c c' \<Longrightarrow> init_invariant c \<Longrightarrow> init_invariant c'"
proof (induction rule: step.induct)
  case (DOMContentLoaded d)
  then show ?case by (rule init_invariant_starts)
next
  case (input_typed s ts v)
  then show ?case by (simp add: init_invariant_typed)
next
  case (click_disconnectButton s ts)
  then show ?case
    by (simp add: disconnectButton_click_def init_invariant_starts init_invariant_click
        init_untouched_segments)
qed (simp_all add: init_invariant_resume init_invariant_click init_untouched_segments)

lemma init_invariant_reachable: "reachable ir c \<Longrightarrow> init_invariant c"
proof (induction rule: reachable.induct)
  case (loaded d)
  show ?case by (simp add: init_invariant_def initial_state_def)
next
  case (stepped c c')
  then show ?case by (simp add: init_invariant_step)
qed

text \<open>
  Claim C8. In every configuration the page can reach, whatever the number and the
  interleaving of the invocations of \<open>initializeWalletConnect\<close> from the page-load handler
  and from connect, the library's \<open>init()\<close> has been invoked at most once; every suspended
  invocation that awaits an initialisation awaits the stored promise; and once a promise
  is stored, \<open>initializeWalletConnect\<close> changes nothing and awaits that promise.
\<close>

theorem init_invoked_at_most_once:
  "reachable init_result (s, ts) \<Longrightarrow>
     count_list (calls s) Init \<le> 1 \<and>
     (\<forall>p. PageLoad_awaits_init p \<in> set ts \<or> Connect_awaits_init p \<in> set ts \<longrightarrow>
          walletConnectInitPromise s = Some p) \<and>
     (\<forall>p. walletConnectInitPromise s = Some p \<longrightarrow> initializeWalletConnect s = (s, p))"
proof -
  assume "reachable init_result (s, ts)"
  then have inv: "init_invariant (s, ts)" by (rule init_invariant_reachable)
  then have once: "count_list (calls s) Init \<le> 1" by (simp add: init_invariant_def)
  from inv have all: "\<forall>t\<in>set ts. awaits_stored_promise s t"
    by (simp add: init_invariant_def list_all_iff)
  have same: "walletConnectInitPromise s = Some p"
    if "PageLoad_awaits_init p \<in> set ts \<or> Connect_awaits_init p \<in> set ts" for p
  proof -
    from that all have "awaits_stored_promise s (PageLoad_awaits_init p) \<or>
      awaits_stored_promise s (Connect_awaits_init p)" by blast
    then show ?thesis by (simp add: awaits_stored_promise_def)
  qed
  have again: "initializeWalletConnect s = (s, p)" if "walletConnectInitPromise s = Some p" for p
    using that by (simp add: initializeWalletConnect_def)
  from once same again show ?thesis by blast
qed

theorem init_invoked_at_most_once_witness:
  "reachable (\<lambda>p. Inr ()) (disconnected_state, [Connect_awaits_init 0]) \<and>
   calls disconnected_state = [Init] \<and>
   walletConnectInitPromise disconnected_state = Some 0 \<and>
   initializeWalletConnect disconnected_state = (disconnected_state, 0)"
proof -
  let ?ir = "\<lambda>p::nat. Inr () :: unit outcome"
  have "reachable ?ir (disconnected_state, [])"
    using reachable_after_pageLoad [of None page_with_all_elements]
    by (simp add: disconnected_state_def)
  moreover have "step ?ir (disconnected_state, [])
      (settle (disconnectButton_click disconnected_state) [])"
    by (rule step.click_disconnectButton) (simp_all add: disconnected_state_eq)
  ultimately have "reachable ?ir (settle (disconnectButton_click disconnected_state) [])"
    by (rule reachable.stepped)
  moreover have "settle (disconnectButton_click disconnected_state) [] =
      (disconnected_state, [Connect_awaits_init 0])"
    by (simp add: disconnected_state_eq disconnectButton_click_def
        openWalletConnectModal_start_def initializeWalletConnect_def)
  ultimately have path: "reachable ?ir (disconnected_state, [Connect_awaits_init 0])"
    by simp
  from init_invoked_at_most_once [OF path] path show ?thesis
    by (simp add: disconnected_state_eq)
qed

section \<open>What the topic handlers leave alone\<close>

lemma then_resume_same_session:
  "same_session s (fst r) \<Longrightarrow> (\<And>s1. same_session s1 (fst (k s1))) \<Longrightarrow>
     same_session s (fst (then_resume r k))"
  by (cases r, rename_tac s1 c, case_tac c) (auto simp add: same_session_def)

lemma then_resume_same_globals:
  "same_globals s (fst r) \<Longrightarrow> (\<And>s1. same_globals s1 (fst (k s1))) \<Longrightarrow>
     same_globals s (fst (then_resume r k))"
  by (cases r, rename_tac s1 c, case_tac c) (auto simp add: same_globals_def same_session_def)

lemma create_segments_same_session:
  "same_session s (fst (handleTopicCreation_start b s))"
  "same_session s (fst (handleTopicCreation_afterFreeze r s))"
  "same_session s (fst (handleTopicCreation_afterExecute r s))"
  "same_session s (fst (handleTopicCreation_afterReceipt rc s))"
  by (simp_all add: same_session_def segment_defs effect_defs Let_def
      split: sum.splits option.splits)

lemma submit_segments_same_globals:
  "same_globals s (fst (handleTopicMessageSubmission_start b s))"
  "same_globals s (fst (handleTopicMessageSubmission_afterFreeze r s))"
  "same_globals s (fst (handleTopicMessageSubmission_afterExecute r s))"
  "same_globals s (fst (handleTopicMessageSubmission_afterReceipt rc s))"
  by (simp_all add: same_globals_def same_session_def segment_defs effect_defs Let_def
      split: sum.splits option.splits)

text \<open>
  Claim C9. Every execution of \<open>handleTopicCreation\<close> leaves \<open>accountId\<close> and
  \<open>isConnected\<close> as they were (of the globals it writes \<open>topicId\<close> only), and every
  execution of \<open>handleTopicMessageSubmission\<close> leaves \<open>accountId\<close>, \<open>isConnected\<close> and
  \<open>topicId\<close> as they were. This holds for complete runs and for each segment between two
  \<^verbatim>\<open>await\<close>s, whatever the library calls settle to.
\<close>

theorem topic_handlers_frame:
  "same_session s (fst (handleTopicCreation build frozen executed rc s)) \<and>
   same_session s (fst (handleTopicCreation_start build s)) \<and>
   same_session s (fst (handleTopicCreation_afterFreeze frozen s)) \<and>
   same_session s (fst (handleTopicCreation_afterExecute executed s)) \<and>
   same_session s (fst (handleTopicCreation_afterReceipt rc s)) \<and>
   same_globals s (fst (handleTopicMessageSubmission build frozen executed rc s)) \<and>
   same_globals s (fst (handleTopicMessageSubmission_start build s)) \<and>
   same_globals s (fst (handleTopicMessageSubmission_afterFreeze frozen s)) \<and>
   same_globals s (fst (handleTopicMessageSubmission_afterExecute executed s)) \<and>
   same_globals s (fst (handleTopicMessageSubmission_afterReceipt rc s))"
proof -
  have "same_session s (fst (handleTopicCreation build frozen executed rc s))"
    unfolding handleTopicCreation_def
    by (intro then_resume_same_session create_segments_same_session)
  moreover have "same_globals s (fst (handleTopicMessageSubmission build frozen executed rc s))"
    unfolding handleTopicMessageSubmission_def
    by (intro then_resume_same_globals submit_segments_same_globals)
  ultimately show ?thesis
    by (simp add: create_segments_same_session submit_segments_same_globals)
qed

theorem topic_handlers_frame_witness:
  "same_session connected_state topic_created_state \<and>
   topicId connected_state = [] \<and> topicId topic_created_state = ''0.0.1234'' \<and>
   same_globals ready_to_submit_state
     (fst (handleTopicMessageSubmission (Inr ()) (Inr ()) (Inr ())
        (Inr \<lparr>receipt_topicId = Some \<lparr>shard = 0, realm = 0, num = 1234\<rparr>,
              receipt_status = Status ''SUCCESS''\<rparr>) ready_to_submit_state))"
  using
    topic_handlers_frame
      [of connected_state "Inr ()" "Inr ()" "Inr ()"
          "Inr \<lparr>receipt_topicId = Some \<lparr>shard = 0, realm = 0, num = 1234\<rparr>,
                receipt_status = Status ''SUCCESS''\<rparr>"]
    topic_handlers_frame
      [of ready_to_submit_state "Inr ()" "Inr ()" "Inr ()"
          "Inr \<lparr>receipt_topicId = Some \<lparr>shard = 0, realm = 0, num = 1234\<rparr>,
                receipt_status = Status ''SUCCESS''\<rparr>"]
  by (simp add: topic_created_state_def [symmetric])
     (simp add: connected_state_eq topic_created_state_eq)

section \<open>A receipt without a status\<close>

text \<open>
  Claim C10. When the receipt of a submit-message run has no status (\<^verbatim>\<open>undefined\<close> or
  \<^verbatim>\<open>null\<close>), the condition of line 225 is false without throwing: \<^verbatim>\<open>toString\<close>, which
  would throw on such a value, is not reached. The handler takes the failure branch and
  renders "Message submission failed: " followed by the status as a template literal
  prints it, \<^verbatim>\<open>undefined\<close> or \<^verbatim>\<open>null\<close>.
\<close>

theorem absent_status_renders_failure:
  "receipt_status rc = StatusUndefined \<or> receipt_status rc = StatusNull \<Longrightarrow>
     status_is_success (receipt_status rc) = Inr False \<and>
     (\<exists>e. status_toString (receipt_status rc) = Inl e) \<and>
     handleTopicMessageSubmission_afterReceipt (Inr rc) s =
       (render_message (''Message submission failed: '' @ status_String (receipt_status rc)) s,
        Fulfilled) \<and>
     status_String (receipt_status rc) =
       (if receipt_status rc = StatusNull then ''null'' else ''undefined'') \<and>
     (isConnected s0 \<and> topicId s0 \<noteq> [] \<and> messageInput (document s0) = Some m \<and> m \<noteq> [] \<and>
        messageStatus (document s0) \<noteq> None \<longrightarrow>
        snd (handleTopicMessageSubmission (Inr u) (Inr v) (Inr w) (Inr rc) s0) = Fulfilled \<and>
        messageStatus (document (fst (handleTopicMessageSubmission (Inr u) (Inr v) (Inr w)
          (Inr rc) s0))) =
          Some (''Message submission failed: '' @ status_String (receipt_status rc)))"
proof -
  assume absent: "receipt_status rc = StatusUndefined \<or> receipt_status rc = StatusNull"
  then have cond: "status_is_success (receipt_status rc) = Inr False"
    and throws: "\<exists>e. status_toString (receipt_status rc) = Inl e"
    and printed: "status_String (receipt_status rc) =
       (if receipt_status rc = StatusNull then ''null'' else ''undefined'')"
    by (auto simp add: status_is_success_def)
  from cond have seg: "handleTopicMessageSubmission_afterReceipt (Inr rc) s =
       (render_message (''Message submission failed: '' @ status_String (receipt_status rc)) s,
        Fulfilled)" for s
    by (simp add: handleTopicMessageSubmission_afterReceipt_def)
  have run: "isConnected s0 \<and> topicId s0 \<noteq> [] \<and> messageInput (document s0) = Some m \<and> m \<noteq> [] \<and>
        messageStatus (document s0) \<noteq> None \<longrightarrow>
        snd (handleTopicMessageSubmission (Inr u) (Inr v) (Inr w) (Inr rc) s0) = Fulfilled \<and>
        messageStatus (document (fst (handleTopicMessageSubmission (Inr u) (Inr v) (Inr w)
          (Inr rc) s0))) =
          Some (''Message submission failed: '' @ status_String (receipt_status rc))"
    by (simp add: handleTopicMessageSubmission_reaches_receipt seg invoke_def
        render_message_def updateMessageStatus_def)
  from cond throws printed seg run show ?thesis by blast
qed

theorem absent_status_renders_failure_witness:
  "handleTopicMessageSubmission_afterReceipt
      (Inr \<lparr>receipt_topicId = None, receipt_status = StatusUndefined\<rparr>) ready_to_submit_state
    = (render_message ''Message submission failed: undefined'' ready_to_submit_state, Fulfilled)
   \<and> handleTopicMessageSubmission_afterReceipt
      (Inr \<lparr>receipt_topicId = None, receipt_status = StatusNull\<rparr>) ready_to_submit_state
    = (render_message ''Message submission failed: null'' ready_to_submit_state, Fulfilled)
   \<and> messageStatus (document (fst (handleTopicMessageSubmission (Inr ()) (Inr ()) (Inr ())
        (Inr \<lparr>receipt_topicId = None, receipt_status = StatusUndefined\<rparr>)
        ready_to_submit_state))) = Some ''Message submission failed: undefined''"
  using
    absent_status_renders_failure
      [of "\<lparr>receipt_topicId = None, receipt_status = StatusUndefined\<rparr>"
          ready_to_submit_state ready_to_submit_state "''gm''" "()" "()" "()"]
    absent_status_renders_failure
      [of "\<lparr>receipt_topicId = None, receipt_status = StatusNull\<rparr>"
          ready_to_submit_state ready_to_submit_state "''gm''" "()" "()" "()"]
  by (simp add: ready_to_submit_state_eq)

end
